theory Spec2Isabelle
  imports Main "HOL-Library.AList"
begin

section \<open>JavaScript strings\<close>

text \<open>
  A JavaScript string is a sequence of code units. The model uses \<open>string\<close> and reads
  each \<open>char\<close> as the code unit with the same number, so it covers texts whose
  code units lie in U+0000..U+00FF (ASCII and Latin-1, which holds every header of the
  two mapping tables). \<open>isSpace\<close> is the white space of \<open>String.prototype.trim\<close> and
  of the regular expression class \<open>\s\<close> in that range: TAB, LF, VT, FF, CR, SPACE and
  NBSP.
\<close>

definition isSpace :: "char \<Rightarrow> bool" where
  "isSpace c = (of_char c \<in> {9, 10, 11, 12, 13, 32, 160 :: nat})"

text \<open>\<open>s.trim()\<close>\<close>

definition trim :: "string \<Rightarrow> string" where
  "trim s = rev (dropWhile isSpace (rev (dropWhile isSpace s)))"

text \<open>
  \<open>s.toUpperCase()\<close>, code unit by code unit: a..z and the Latin-1 letters U+00E0..U+00FE
  (without the division sign U+00F7) move down by 32, sharp s (U+00DF) becomes SS. The
  capitals of U+00B5 and U+00FF lie outside the range of the model; both are left as
  they are.
\<close>

definition upperUnit :: "char \<Rightarrow> string" where
  "upperUnit c =
     (let n = (of_char c :: nat) in
      if 97 \<le> n \<and> n \<le> 122 then [char_of (n - 32)]
      else if 224 \<le> n \<and> n \<le> 254 \<and> n \<noteq> 247 then [char_of (n - 32)]
      else if n = 223 then ''SS''
      else [c])"

definition toUpperCase :: "string \<Rightarrow> string" where
  "toUpperCase s = concat (map upperUnit s)"

text \<open>\<open>s.endsWith(',')\<close> and \<open>s.slice(0, -1)\<close>\<close>

definition endsWithComma :: "string \<Rightarrow> bool" where
  "endsWithComma s = (s \<noteq> [] \<and> last s = CHR '','')"

section \<open>CSV line tokenizer\<close>

text \<open>
  \<open>splitCsvLine\<close> of components/DataConsolidation.tsx; the periodic update component
  holds the same function, statement by statement.

  \<open>stripQuotes\<close> is \<open>.replace(/^"|"$/g, '')\<close>: one double quote at the start and one
  at the end are removed, if they are there.
\<close>

definition stripQuotes :: "string \<Rightarrow> string" where
  "stripQuotes s =
     (let s1 = (case s of [] \<Rightarrow> [] | c # cs \<Rightarrow> if c = CHR 0x22 then cs else s) in
      if s1 \<noteq> [] \<and> last s1 = CHR 0x22 then butlast s1 else s1)"

text \<open>\<open>current.trim().replace(/^"|"$/g, '')\<close>, the field pushed to \<open>result\<close>\<close>

definition field :: "string \<Rightarrow> string" where
  "field current = stripQuotes (trim current)"

text \<open>
  The \<open>for\<close> loop over the code units of the line, with the loop variables
  \<open>result\<close>, \<open>current\<close> and \<open>inQuote\<close>; at the end of the line the field in progress
  is pushed.
\<close>

fun splitLoop :: "string \<Rightarrow> string list \<Rightarrow> string \<Rightarrow> bool \<Rightarrow> string list" where
  "splitLoop [] result current inQuote = result @ [field current]"
| "splitLoop (c # cs) result current inQuote =
     (if c = CHR 0x22 then splitLoop cs result current (\<not> inQuote)
      else if c = CHR '','' \<and> \<not> inQuote then splitLoop cs (result @ [field current]) [] inQuote
      else splitLoop cs result (current @ [c]) inQuote)"

definition splitCsvLine :: "string \<Rightarrow> string list" where
  "splitCsvLine line = splitLoop line [] [] False"

text \<open>
  The number of separators of a line: the commas met while an even number of double
  quotes has been read (\<open>q\<close> tells whether the position is inside a quoted region).
\<close>

fun separators :: "bool \<Rightarrow> string \<Rightarrow> nat" where
  "separators q [] = 0"
| "separators q (c # cs) =
     (if c = CHR 0x22 then separators (\<not> q) cs
      else if c = CHR '','' \<and> \<not> q then Suc (separators q cs)
      else separators q cs)"

section \<open>Record parser\<close>

text \<open>
  The errors of the model: the exception thrown by the parser for a file without a data
  line, the \<open>TypeError\<close> of JavaScript (a method called on \<open>undefined\<close>, \<open>null\<close> or a
  value without that method), the refusal of \<open>handleConsolidate\<close> when no file is
  chosen, and a statement rejected by the database.
\<close>

datatype error = MalformedCsv | TypeError | NoFileSelected | DatabaseError

text \<open>
  A parsed record (a partial \<open>Equipment\<close> with string fields) is the list of its
  properties in the order of their creation; \<open>AList.update\<close> is the assignment
  \<open>entry[key] = v\<close>: an existing property keeps its place, a new one goes last.
  A mapping table is the list of the properties of its object literal.
\<close>

type_synonym entry = "(string \<times> string) list"
type_synonym mappings = "(string \<times> string) list"

text \<open>\<open>text.split(/\r\n|\n/)\<close>: CR LF and LF end a line, a CR alone does not.\<close>

fun splitLines :: "string \<Rightarrow> string list" where
  "splitLines [] = [[]]"
| "splitLines [c] = (if c = CHR 0x0A then [[], []] else [[c]])"
| "splitLines (c # d # cs) =
     (if c = CHR 0x0D \<and> d = CHR 0x0A then [] # splitLines cs
      else if c = CHR 0x0A then [] # splitLines (d # cs)
      else (case splitLines (d # cs) of
              [] \<Rightarrow> [[c]]
            | l # ls \<Rightarrow> (c # l) # ls))"

text \<open>
  \<open>mappings[normalizedColName] || mappings[colName.toUpperCase()]\<close>, where
  \<open>normalizedColName = colName.replace(/[\s/]+/g, '').toUpperCase()\<close>. A property
  that is missing or the empty string is falsy, so the second lookup is taken.
\<close>

definition mappedKeyOf :: "mappings \<Rightarrow> string \<Rightarrow> string option" where
  "mappedKeyOf mappings colName =
     (let normalizedColName =
            toUpperCase (filter (\<lambda>c. \<not> isSpace c \<and> c \<noteq> CHR ''/'') colName)
      in case map_of mappings normalizedColName of
           Some k \<Rightarrow> if k \<noteq> [] then Some k else map_of mappings (toUpperCase colName)
         | None \<Rightarrow> map_of mappings (toUpperCase colName))"

text \<open>
  The body of \<open>header.forEach((colName, index) => ...)\<close>:
  \<open>if (mappedKey && index < values.length) entry[mappedKey] = values[index]?.trim() || ''\<close>.
\<close>

definition setColumn :: "mappings \<Rightarrow> string list \<Rightarrow> entry \<Rightarrow> nat \<times> string \<Rightarrow> entry" where
  "setColumn mappings values entry ic =
     (case mappedKeyOf mappings (snd ic) of
        None \<Rightarrow> entry
      | Some mappedKey \<Rightarrow>
          if mappedKey \<noteq> [] \<and> fst ic < length values
          then AList.update mappedKey (trim (values ! fst ic)) entry
          else entry)"

text \<open>
  The function mapped over the data lines; \<open>None\<close> is the \<open>null\<close> that the final
  \<open>filter\<close> removes: a blank line, or a record whose \<open>serial\<close> is missing, empty
  or blank.
\<close>

definition parseRow :: "mappings \<Rightarrow> string list \<Rightarrow> string \<Rightarrow> entry option" where
  "parseRow mappings header row =
     (if trim row = [] then None
      else
        let values = splitCsvLine row;
            entry = foldl (setColumn mappings values) [] (enumerate 0 header)
        in case map_of entry ''serial'' of
             None \<Rightarrow> None
           | Some serial \<Rightarrow> if serial = [] \<or> trim serial = [] then None else Some entry)"

definition parseCsv :: "string \<Rightarrow> mappings \<Rightarrow> error + entry list" where
  "parseCsv fileText mappings =
     (let lines = splitLines (trim fileText) in
      if length lines < 2 then Inl MalformedCsv
      else
        let headerLine = (if endsWithComma (hd lines) then butlast (hd lines) else hd lines);
            header = map (\<lambda>h. toUpperCase (trim h)) (splitCsvLine headerLine);
            rows = tl lines
        in Inr (List.map_filter (parseRow mappings header) rows))"

section \<open>Column mapping tables\<close>

text \<open>
  The two object literals of \<open>handleConsolidate\<close>. The accented capitals are written
  by their code units: A acute C1, A tilde C3, C cedilla C7, E acute C9, I acute CD,
  O acute D3, U acute DA.
\<close>

definition baseMappings :: mappings where
  "baseMappings =
     [(''EQUIPAMENTO'', ''equipamento''), (''GARANTIA'', ''garantia''),
      (''PATRIMONIO'', ''patrimonio''), (''SERIAL'', ''serial''),
      (''USU'' @ [CHR 0xC1] @ ''RIO ATUAL'', ''usuarioAtual''),
      (''USU'' @ [CHR 0xC1] @ ''RIO ANTERIOR'', ''usuarioAnterior''),
      (''LOCAL'', ''local''), (''SETOR'', ''setor''),
      (''DATA ENTREGA O USU'' @ [CHR 0xC1] @ ''RIO'', ''dataEntregaUsuario''),
      (''STATUS'', ''status''),
      (''DATA DE DEVOLU'' @ [CHR 0xC7, CHR 0xC3] @ ''O'', ''dataDevolucao''),
      (''TIPO'', ''tipo''), (''NOTA DE COMPRA'', ''notaCompra''),
      (''NOTA / PL K&M'', ''notaPlKm''),
      (''TERMO DE RESPONSABILIDADE'', ''termoResponsabilidade''),
      (''FOTO'', ''foto''), (''QR CODE'', ''qrCode''),
      (''MARCA'', ''brand''), (''MODELO'', ''model''),
      (''EMAIL COLABORADOR'', ''emailColaborador''),
      (''IDENTIFICADOR'', ''identificador''), (''NOME DO SO'', ''nomeSO''),
      (''MEM'' @ [CHR 0xD3] @ ''RIA F'' @ [CHR 0xCD] @ ''SICA TOTAL'', ''memoriaFisicaTotal''),
      (''GRUPO DE POL'' @ [CHR 0xCD] @ ''TICAS'', ''grupoPoliticas''),
      (''PA'' @ [CHR 0xCD] @ ''S'', ''pais''), (''CIDADE'', ''cidade''),
      (''ESTADO/PROV'' @ [CHR 0xCD] @ ''NCIA'', ''estadoProvincia'')]"

definition absoluteMappings :: mappings where
  "absoluteMappings =
     [(''NOMEDODISPOSITIVO'', ''equipamento''),
      (''N'' @ [CHR 0xDA] @ ''MERODES'' @ [CHR 0xC9] @ ''RIE'', ''serial''),
      (''NOMEDOUSU'' @ [CHR 0xC1] @ ''RIOATUAL'', ''usuarioAtual''),
      (''MARCA'', ''brand''), (''MODELO'', ''model''),
      (''EMAIL DO COLABORADOR'', ''emailColaborador''),
      (''IDENTIFICADOR'', ''identificador''), (''NOME DO SO'', ''nomeSO''),
      (''MEM'' @ [CHR 0xD3] @ ''RIA F'' @ [CHR 0xCD] @ ''SICA TOTAL'', ''memoriaFisicaTotal''),
      (''GRUPO DE POL'' @ [CHR 0xCD] @ ''TICAS'', ''grupoPoliticas''),
      (''PA'' @ [CHR 0xCD] @ ''S'', ''pais''), (''CIDADE'', ''cidade''),
      (''ESTADO/PROV'' @ [CHR 0xCD] @ ''NCIA'', ''estadoProvincia'')]"

text \<open>\<open>parseAbsoluteCsv\<close> of the periodic update component: the same parser with its own copy of the Absolute table.\<close>

definition parseAbsoluteCsv :: "string \<Rightarrow> error + entry list" where
  "parseAbsoluteCsv fileText = parseCsv fileText absoluteMappings"

section \<open>Consolidator\<close>

text \<open>\<open>serial.toUpperCase().replace(/ /g, '')\<close>, the key of \<open>consolidatedMap\<close>\<close>

definition mergeKey :: "string \<Rightarrow> string" where
  "mergeKey serial = filter (\<lambda>c. c \<noteq> CHR '' '') (toUpperCase serial)"

text \<open>The object spread \<open>{...a, ...b}\<close>\<close>

definition spread :: "('k \<times> 'v) list \<Rightarrow> ('k \<times> 'v) list \<Rightarrow> ('k \<times> 'v) list" where
  "spread a b = foldl (\<lambda>obj kv. AList.update (fst kv) (snd kv) obj) a b"

text \<open>
  The function mapped over the final records, the same in the three branches:
  \<open>if (item.usuarioAtual && item.usuarioAtual.trim() !== '') return {...item, status: 'Em Uso'}; return item\<close>.
\<close>

definition deriveStatus :: "entry \<Rightarrow> entry" where
  "deriveStatus item =
     (case map_of item ''usuarioAtual'' of
        None \<Rightarrow> item
      | Some u \<Rightarrow> if u \<noteq> [] \<and> trim u \<noteq> [] then spread item [(''status'', ''Em Uso'')] else item)"

text \<open>A \<open>forEach\<close> whose body may throw: the first exception ends the loop.\<close>

fun forEachE :: "('s \<Rightarrow> 'a \<Rightarrow> error + 's) \<Rightarrow> 'a list \<Rightarrow> 's \<Rightarrow> error + 's" where
  "forEachE f [] s = Inr s"
| "forEachE f (x # xs) s = (case f s x of Inl e \<Rightarrow> Inl e | Inr s' \<Rightarrow> forEachE f xs s')"

text \<open>
  \<open>consolidatedMap\<close> is a JavaScript \<open>Map\<close>: \<open>set\<close> on a key it holds replaces the
  value in place, on a new key it appends. \<open>baseItem.serial!.toUpperCase()\<close> throws
  when the record has no \<open>serial\<close>.
\<close>

definition setBase :: "(string \<times> entry) list \<Rightarrow> entry \<Rightarrow> error + (string \<times> entry) list" where
  "setBase consolidatedMap baseItem =
     (case map_of baseItem ''serial'' of
        None \<Rightarrow> Inl TypeError
      | Some serial \<Rightarrow> Inr (AList.update (mergeKey serial) baseItem consolidatedMap))"

definition overlayAbsolute :: "(string \<times> entry) list \<Rightarrow> entry \<Rightarrow> error + (string \<times> entry) list" where
  "overlayAbsolute consolidatedMap absoluteItem =
     (case map_of absoluteItem ''serial'' of
        None \<Rightarrow> Inl TypeError
      | Some serial \<Rightarrow>
          let key = mergeKey serial;
              existingItem = (case map_of consolidatedMap key of Some e \<Rightarrow> e | None \<Rightarrow> [])
          in Inr (AList.update key (spread existingItem absoluteItem) consolidatedMap))"

text \<open>
  The three branches of \<open>handleConsolidate\<close> that build \<open>finalData\<close>;
  \<open>hasBase\<close> and \<open>hasAbsolute\<close> tell which files were chosen.
\<close>

definition consolidateData :: "bool \<Rightarrow> bool \<Rightarrow> entry list \<Rightarrow> entry list \<Rightarrow> error + entry list" where
  "consolidateData hasBase hasAbsolute baseData absoluteData =
     (if hasBase \<and> hasAbsolute then
        (case forEachE setBase baseData [] of
           Inl e \<Rightarrow> Inl e
         | Inr m1 \<Rightarrow>
             (case forEachE overlayAbsolute absoluteData m1 of
                Inl e \<Rightarrow> Inl e
              | Inr m2 \<Rightarrow> Inr (map (\<lambda>kv. deriveStatus (snd kv)) m2)))
      else if hasBase then Inr (map deriveStatus baseData)
      else if hasAbsolute then Inr (map deriveStatus absoluteData)
      else Inr [])"

text \<open>
  \<open>handleConsolidate\<close> on the texts of the chosen files (\<open>None\<close>: no file chosen);
  the error is the message set by \<open>setError\<close>, the result is \<open>consolidatedData\<close>.
\<close>

definition handleConsolidate :: "string option \<Rightarrow> string option \<Rightarrow> error + entry list" where
  "handleConsolidate baseFile absoluteFile =
     (if baseFile = None \<and> absoluteFile = None then Inl NoFileSelected
      else
        case (case baseFile of None \<Rightarrow> Inr [] | Some baseText \<Rightarrow> parseCsv baseText baseMappings) of
          Inl e \<Rightarrow> Inl e
        | Inr baseData \<Rightarrow>
            (case (case absoluteFile of None \<Rightarrow> Inr []
                   | Some absoluteText \<Rightarrow> parseCsv absoluteText absoluteMappings) of
               Inl e \<Rightarrow> Inl e
             | Inr absoluteData \<Rightarrow>
                 consolidateData (baseFile \<noteq> None) (absoluteFile \<noteq> None) baseData absoluteData))"

text \<open>
  The key under which \<open>consolidatedMap\<close> holds a record that has a serial.
\<close>

definition keyOf :: "entry \<Rightarrow> string" where
  "keyOf e = (case map_of e ''serial'' of Some serial \<Rightarrow> mergeKey serial | None \<Rightarrow> [])"

section \<open>Values, rows and statements of the server\<close>

text \<open>
  The values that the fields of an equipment object take in inventario-api/server.js:
  strings, numbers (the \<open>id\<close>), \<open>null\<close> (a JSON null, an SQL NULL) and
  \<open>undefined\<close> (a property that is not there). An object is the list of its own
  properties in the order of \<open>Object.keys\<close>; \<open>getProp obj key\<close> is \<open>obj[key]\<close>, for
  the keys of an equipment object (names of its fields, none of them a property of
  \<open>Object.prototype\<close>). The operator \<open>!==\<close> on these values is \<open>\<noteq>\<close>. The body of
  a request is an array of such objects, so the guard \<open>Array.isArray\<close> of the two
  routes passes.
\<close>

datatype jsval = JUndefined | JNull | JStr string | JNum int

type_synonym jsobj = "(string \<times> jsval) list"

definition getProp :: "jsobj \<Rightarrow> string \<Rightarrow> jsval" where
  "getProp obj key = (case map_of obj key of Some v \<Rightarrow> v | None \<Rightarrow> JUndefined)"

text \<open>A value that \<open>||\<close> and \<open>if\<close> take as false\<close>

definition falsy :: "jsval \<Rightarrow> bool" where
  "falsy v = (v = JUndefined \<or> v = JNull \<or> v = JStr [] \<or> v = JNum 0)"

text \<open>One element of the array \<open>historyEntries\<close>, one row of \<open>equipment_history\<close>\<close>

record historyEntry =
  equipment_id :: jsval
  changedBy :: string
  changeType :: string
  from_value :: jsval
  to_value :: jsval

text \<open>
  The tables the two routes write. A row of \<open>equipment\<close> is the list of the columns
  that were given a value, \<open>id\<close> among them; every other column is NULL.
  \<open>autoIncrement\<close> is the AUTO_INCREMENT counter of the table.
\<close>

record database =
  equipment :: "jsobj list"
  equipment_history :: "historyEntry list"
  autoIncrement :: nat
  app_config :: "(string \<times> string) list"

text \<open>What a SELECT returns for a column of a row; a parameter \<open>undefined\<close> is stored as NULL.\<close>

definition column :: "jsobj \<Rightarrow> string \<Rightarrow> jsval" where
  "column row c = (case map_of row c of None \<Rightarrow> JNull | Some JUndefined \<Rightarrow> JNull | Some v \<Rightarrow> v)"

text \<open>
  The statements whose success depends on their data: the schema has NOT NULL, UNIQUE
  and foreign key constraints, typed and bounded columns, and a fixed set of column
  names. The MySQL engine that decides is not part of the repository, so its decision
  is a parameter \<open>accepts\<close> of the routes, from the table as it is when the statement
  arrives and the statement; every property below holds for each such engine. The
  statements without data (DELETE of all rows, ALTER TABLE, the two rows of
  \<open>app_config\<close>, COMMIT and ROLLBACK) succeed. The audit line written by \<open>logAction\<close>
  goes to a table that no property here reads and is left out.
\<close>

datatype statement =
    UpdateEquipment jsobj jsval
  | InsertEquipment jsobj
  | InsertHistory "historyEntry list"

type_synonym engine = "jsobj list \<Rightarrow> statement \<Rightarrow> bool"

text \<open>\<open>UPDATE equipment SET ? WHERE id = ?\<close> with the object \<open>updates\<close>\<close>

definition execUpdate :: "jsobj \<Rightarrow> jsval \<Rightarrow> jsobj list \<Rightarrow> jsobj list" where
  "execUpdate updates ident rows =
     map (\<lambda>row. if column row ''id'' = ident then spread row updates else row) rows"

text \<open>An INSERT: the row gets the next \<open>id\<close>, which is the \<open>insertId\<close> of the result.\<close>

definition execInsert :: "jsobj \<Rightarrow> database \<Rightarrow> database" where
  "execInsert newRow db =
     db\<lparr>equipment := equipment db @ [(''id'', JNum (int (autoIncrement db))) # newRow],
        autoIncrement := Suc (autoIncrement db)\<rparr>"

section \<open>Initial import\<close>

text \<open>
  The parameter array of the INSERT of \<open>POST /api/equipment/import\<close>, column by column
  in the order of the statement.
\<close>

definition importRow :: "jsobj \<Rightarrow> jsobj" where
  "importRow e =
     [(''equipamento'', getProp e ''equipamento''), (''patrimonio'', getProp e ''patrimonio''),
      (''serial'', getProp e ''serial''), (''brand'', getProp e ''brand''),
      (''model'', getProp e ''model''), (''tipo'', getProp e ''tipo''),
      (''status'', getProp e ''status''), (''usuarioAtual'', getProp e ''usuarioAtual''),
      (''emailColaborador'', getProp e ''emailColaborador''), (''local'', getProp e ''local''),
      (''setor'', getProp e ''setor''),
      (''dataEntregaUsuario'',
         if falsy (getProp e ''dataEntregaUsuario'') then JNull else getProp e ''dataEntregaUsuario''),
      (''approval_status'', JStr ''approved''), (''created_by_id'', JNum 1),
      (''identificador'', getProp e ''identificador''), (''nomeSO'', getProp e ''nomeSO''),
      (''memoriaFisicaTotal'', getProp e ''memoriaFisicaTotal''),
      (''grupoPoliticas'', getProp e ''grupoPoliticas''), (''pais'', getProp e ''pais''),
      (''cidade'', getProp e ''cidade''), (''estadoProvincia'', getProp e ''estadoProvincia'')]"

text \<open>The loop \<open>for (const equipment of equipmentList)\<close>: the first rejected INSERT throws.\<close>

fun importLoop :: "engine \<Rightarrow> jsobj list \<Rightarrow> database \<Rightarrow> error + database" where
  "importLoop accepts [] db = Inr db"
| "importLoop accepts (e # es) db =
     (if accepts (equipment db) (InsertEquipment (importRow e))
      then importLoop accepts es (execInsert (importRow e) db)
      else Inl DatabaseError)"

text \<open>
  The transaction of the route, from \<open>beginTransaction\<close> to \<open>commit\<close>; \<open>now\<close> is
  \<open>new Date().toISOString()\<close>. \<open>Inl\<close> is the \<open>catch\<close> branch.
\<close>

definition importTransaction :: "engine \<Rightarrow> string \<Rightarrow> jsobj list \<Rightarrow> database \<Rightarrow> error + database" where
  "importTransaction accepts now equipmentList db =
     (case importLoop accepts equipmentList
             (db\<lparr>equipment_history := [], equipment := [], autoIncrement := 1\<rparr>) of
        Inl e \<Rightarrow> Inl e
      | Inr db1 \<Rightarrow>
          Inr (db1\<lparr>app_config :=
                 AList.update ''hasInitialConsolidationRun'' ''true''
                   (AList.update ''lastAbsoluteUpdateTimestamp'' now (app_config db1))\<rparr>))"

section \<open>Periodic reconciliation\<close>

text \<open>
  \<open>SELECT id, serial, usuarioAtual, status FROM equipment\<close>: the objects of
  \<open>existingEquipmentRows\<close> have these four properties and no other.
\<close>

definition selectRow :: "jsobj \<Rightarrow> jsobj" where
  "selectRow row =
     [(''id'', column row ''id''), (''serial'', column row ''serial''),
      (''usuarioAtual'', column row ''usuarioAtual''), (''status'', column row ''status'')]"

text \<open>
  \<open>new Map(existingEquipmentRows.map(e => [e.serial.toUpperCase(), e]))\<close>: a later row
  with the same key replaces the earlier one; a row whose serial is NULL throws.
\<close>

definition addExisting :: "(string \<times> jsobj) list \<Rightarrow> jsobj \<Rightarrow> error + (string \<times> jsobj) list" where
  "addExisting m e =
     (case getProp e ''serial'' of
        JStr serial \<Rightarrow> Inr (AList.update (toUpperCase serial) e m)
      | _ \<Rightarrow> Inl TypeError)"

text \<open>
  \<open>(item.usuarioAtual || '').trim() !== '' ? 'Em Uso' : 'Estoque'\<close>; a number other
  than 0 has no \<open>trim\<close>.
\<close>

definition newStatusOf :: "jsobj \<Rightarrow> error + string" where
  "newStatusOf item =
     (case getProp item ''usuarioAtual'' of
        JStr u \<Rightarrow> Inr (if trim u \<noteq> [] then ''Em Uso'' else ''Estoque'')
      | JNum n \<Rightarrow> if n = 0 then Inr ''Estoque'' else Inl TypeError
      | _ \<Rightarrow> Inr ''Estoque'')"

text \<open>
  The local variables \<open>updates\<close> and \<open>hasChanges\<close> of the branch \<open>if (existing)\<close>,
  with the array \<open>historyEntries\<close> shared by all items.
\<close>

record comparison =
  updates :: jsobj
  hasChanges :: bool
  historyEntries :: "historyEntry list"

text \<open>The body of \<open>Object.keys(item).forEach(key => ...)\<close>\<close>

definition compareKey :: "string \<Rightarrow> jsobj \<Rightarrow> jsobj \<Rightarrow> comparison \<Rightarrow> string \<Rightarrow> comparison" where
  "compareKey username item existing c key =
     (if key \<noteq> ''serial'' \<and> getProp item key \<noteq> getProp existing key
      then \<lparr>updates = AList.update key (getProp item key) (updates c),
            hasChanges = True,
            historyEntries = historyEntries c @
              [\<lparr>equipment_id = getProp existing ''id'', changedBy = username, changeType = key,
                from_value = getProp existing key, to_value = getProp item key\<rparr>]\<rparr>
      else c)"

text \<open>\<open>if (newStatus !== existing.status) { ... }\<close>, after the loop over the keys\<close>

definition checkStatus :: "string \<Rightarrow> jsobj \<Rightarrow> string \<Rightarrow> comparison \<Rightarrow> comparison" where
  "checkStatus username existing newStatus c =
     (if JStr newStatus \<noteq> getProp existing ''status''
      then \<lparr>updates = AList.update ''status'' (JStr newStatus) (updates c),
            hasChanges = True,
            historyEntries =
              (if \<not> hasChanges c
               then historyEntries c @
                 [\<lparr>equipment_id = getProp existing ''id'', changedBy = username,
                   changeType = ''status'', from_value = getProp existing ''status'',
                   to_value = JStr newStatus\<rparr>]
               else historyEntries c)\<rparr>
      else c)"

text \<open>The whole branch \<open>if (existing)\<close>, up to the test \<open>if (hasChanges)\<close>\<close>

definition compareExisting :: "string \<Rightarrow> jsobj \<Rightarrow> jsobj \<Rightarrow> string \<Rightarrow> historyEntry list \<Rightarrow> comparison" where
  "compareExisting username item existing newStatus entries =
     checkStatus username existing newStatus
       (foldl (compareKey username item existing)
          \<lparr>updates = [], hasChanges = False, historyEntries = entries\<rparr>
          (map fst item))"

text \<open>
  A query sent inside the loop, whose promise is kept in \<open>updatePromises\<close> or in
  \<open>insertPromises\<close>. The connection runs its queries in the order in which they were
  sent, so the model keeps one list in that order. An insert carries the item, for
  the history entry that its \<open>then\<close> pushes once the \<open>insertId\<close> is known.
\<close>

datatype pending = UpdatePromise jsobj jsval | InsertPromise jsobj jsobj

text \<open>The body of \<open>for (const item of equipmentList)\<close>\<close>

definition processItem ::
  "string \<Rightarrow> (string \<times> jsobj) list \<Rightarrow> historyEntry list \<times> pending list \<Rightarrow> jsobj \<Rightarrow>
   error + historyEntry list \<times> pending list" where
  "processItem username existingEquipmentMap st item =
     (case getProp item ''serial'' of
        JStr serial \<Rightarrow>
          (case newStatusOf item of
             Inl e \<Rightarrow> Inl e
           | Inr newStatus \<Rightarrow>
               (case map_of existingEquipmentMap (toUpperCase serial) of
                  Some existing \<Rightarrow>
                    let c = compareExisting username item existing newStatus (fst st) in
                    Inr (historyEntries c,
                         if hasChanges c
                         then snd st @ [UpdatePromise (updates c) (getProp existing ''id'')]
                         else snd st)
                | None \<Rightarrow>
                    Inr (fst st,
                         snd st @
                           [InsertPromise item
                              (spread item
                                 [(''status'', JStr newStatus),
                                  (''approval_status'', JStr ''approved''),
                                  (''created_by_id'', JNum 1)])])))
      | _ \<Rightarrow> Inl TypeError)"

text \<open>
  \<open>await Promise.all([...updatePromises, ...insertPromises])\<close>: the queries run in the
  order in which they were sent; a rejected one rejects the whole. \<open>created\<close> collects
  the \<open>CREATE\<close> entries pushed by the inserts.
\<close>

fun runQueries ::
  "engine \<Rightarrow> string \<Rightarrow> pending list \<Rightarrow> database \<Rightarrow> historyEntry list \<Rightarrow>
   error + database \<times> historyEntry list" where
  "runQueries accepts username [] db created = Inr (db, created)"
| "runQueries accepts username (UpdatePromise upd ident # qs) db created =
     (if accepts (equipment db) (UpdateEquipment upd ident)
      then runQueries accepts username qs
             (db\<lparr>equipment := execUpdate upd ident (equipment db)\<rparr>) created
      else Inl DatabaseError)"
| "runQueries accepts username (InsertPromise item newItem # qs) db created =
     (if accepts (equipment db) (InsertEquipment newItem)
      then runQueries accepts username qs (execInsert newItem db)
             (created @
                [\<lparr>equipment_id = JNum (int (autoIncrement db)), changedBy = username,
                  changeType = ''CREATE'', from_value = JNull,
                  to_value = getProp item ''equipamento''\<rparr>])
      else Inl DatabaseError)"

text \<open>
  The first part of the route, from the SELECT to the end of the loop over
  \<open>equipmentList\<close>: the history entries pushed by the loop and the queries it has sent.
\<close>

definition staged ::
  "jsobj list \<Rightarrow> string \<Rightarrow> database \<Rightarrow> error + historyEntry list \<times> pending list" where
  "staged equipmentList username db =
     (case forEachE addExisting (map selectRow (equipment db)) [] of
        Inl e \<Rightarrow> Inl e
      | Inr existingEquipmentMap \<Rightarrow>
          forEachE (processItem username existingEquipmentMap) equipmentList ([], []))"

text \<open>
  The transaction of \<open>POST /api/equipment/periodic-update\<close>. The entries of the
  updates are pushed while the loop runs, those of the inserts when their queries have
  answered, so they come last.
\<close>

definition periodicTransaction ::
  "engine \<Rightarrow> string \<Rightarrow> jsobj list \<Rightarrow> string \<Rightarrow> database \<Rightarrow> error + database" where
  "periodicTransaction accepts now equipmentList username db =
     (case staged equipmentList username db of
        Inl e \<Rightarrow> Inl e
      | Inr st \<Rightarrow>
          (case runQueries accepts username (snd st) db [] of
             Inl e \<Rightarrow> Inl e
           | Inr (db1, created) \<Rightarrow>
               let allEntries = fst st @ created in
               if allEntries \<noteq> [] \<and> \<not> accepts (equipment db1) (InsertHistory allEntries)
               then Inl DatabaseError
               else Inr (db1\<lparr>equipment_history := equipment_history db1 @ allEntries,
                             app_config :=
                               AList.update ''lastAbsoluteUpdateTimestamp'' now
                                 (app_config db1)\<rparr>)))"

text \<open>
  The answer of the route and the database after the request: the \<open>catch\<close> branch
  rolls the transaction back, which leaves the tables as they were.
\<close>

definition periodicUpdate ::
  "engine \<Rightarrow> string \<Rightarrow> jsobj list \<Rightarrow> string \<Rightarrow> database \<Rightarrow> bool \<times> database" where
  "periodicUpdate accepts now equipmentList username db =
     (case periodicTransaction accepts now equipmentList username db of
        Inl e \<Rightarrow> (False, db)
      | Inr db' \<Rightarrow> (True, db'))"

text \<open>
  An incoming item corresponds to a persisted row when the lookup
  \<open>existingEquipmentMap.get(item.serial.toUpperCase())\<close> can return that row: both
  serials are strings with the same upper-case form.
\<close>

definition corresponds :: "jsobj \<Rightarrow> jsobj \<Rightarrow> bool" where
  "corresponds item row =
     (case getProp item ''serial'' of
        JStr s \<Rightarrow>
          (case column row ''serial'' of JStr t \<Rightarrow> toUpperCase s = toUpperCase t | _ \<Rightarrow> False)
      | _ \<Rightarrow> False)"

section \<open>Properties of the tokenizer\<close>

lemma length_splitLoop:
  "length (splitLoop line result current q) = length result + separators q line + 1"
  by (induction line arbitrary: result current q) simp_all

lemma splitLoop_quoted:
  "CHR 0x22 \<notin> set s \<Longrightarrow>
   splitLoop (s @ CHR 0x22 # rest) result current True =
   splitLoop rest result (current @ s) False"
  by (induction s arbitrary: current) auto

lemma splitCsvLine_quoted:
  "splitCsvLine (CHR 0x22 # filter (\<lambda>c. c \<noteq> CHR 0x22) s @ [CHR 0x22]) =
   [field (filter (\<lambda>c. c \<noteq> CHR 0x22) s)]"
  using splitLoop_quoted [of "filter (\<lambda>c. c \<noteq> CHR 0x22) s" "[]" "[]" "[]"]
  by (simp add: splitCsvLine_def)

text \<open>
  Claim C9. The tokenizer is a total function (no operation of its loop can throw). A
  line with N commas outside double quotes gives exactly N + 1 fields; a text without
  double quotes that is put between two double quotes is one field, whatever commas
  it holds; and the line \<open>a,"b,c",d\<close> gives the fields \<open>a\<close>, \<open>b,c\<close> and \<open>d\<close>.
\<close>

theorem tokenizer_field_count:
  "length (splitCsvLine line) = separators False line + 1
   \<and> splitCsvLine (CHR 0x22 # filter (\<lambda>c. c \<noteq> CHR 0x22) s @ [CHR 0x22])
       = [field (filter (\<lambda>c. c \<noteq> CHR 0x22) s)]
   \<and> splitCsvLine (''a,'' @ [CHR 0x22] @ ''b,c'' @ [CHR 0x22] @ '',d'') = [''a'', ''b,c'', ''d'']"
proof (intro conjI)
  show "length (splitCsvLine line) = separators False line + 1"
    by (simp add: splitCsvLine_def length_splitLoop)
  show "splitCsvLine (CHR 0x22 # filter (\<lambda>c. c \<noteq> CHR 0x22) s @ [CHR 0x22])
       = [field (filter (\<lambda>c. c \<noteq> CHR 0x22) s)]"
    by (rule splitCsvLine_quoted)
  show "splitCsvLine (''a,'' @ [CHR 0x22] @ ''b,c'' @ [CHR 0x22] @ '',d'') = [''a'', ''b,c'', ''d'']"
    by code_simp
qed

section \<open>Properties of the record parser\<close>

lemma in_set_map_filter:
  "y \<in> set (List.map_filter f xs) \<Longrightarrow> \<exists>x \<in> set xs. f x = Some y"
  by (auto simp: List.map_filter_def)

lemma parseRow_serial:
  "parseRow mappings header row = Some entry \<Longrightarrow>
   \<exists>serial. map_of entry ''serial'' = Some serial \<and> trim serial \<noteq> []"
  by (auto simp: parseRow_def Let_def split: if_splits option.splits)

text \<open>
  Claim C8. For every CSV text and every mapping table, each record that the parser
  returns has a \<open>serial\<close> that is not empty after trimming: a line whose serial is
  missing, empty or blank is not in the output. The text with the header
  \<open>SERIAL,EQUIPAMENTO\<close> and the single data line \<open>,"My PC"\<close> gives no record.
\<close>

theorem parser_serial_required:
  "(parseCsv fileText mappings = Inr records \<longrightarrow>
      (\<forall>entry \<in> set records. \<exists>serial. map_of entry ''serial'' = Some serial \<and> trim serial \<noteq> []))
   \<and> parseCsv (''SERIAL,EQUIPAMENTO'' @ [CHR 0x0A] @ '','' @ [CHR 0x22] @ ''My PC'' @ [CHR 0x22])
        baseMappings = Inr []"
proof (intro conjI impI ballI)
  fix entry
  assume p: "parseCsv fileText mappings = Inr records" and e: "entry \<in> set records"
  from p e obtain header row where "parseRow mappings header row = Some entry"
    by (auto simp: parseCsv_def Let_def split: if_splits dest: in_set_map_filter)
  then show "\<exists>serial. map_of entry ''serial'' = Some serial \<and> trim serial \<noteq> []"
    by (rule parseRow_serial)
next
  show "parseCsv (''SERIAL,EQUIPAMENTO'' @ [CHR 0x0A] @ '','' @ [CHR 0x22] @ ''My PC'' @ [CHR 0x22])
        baseMappings = Inr []"
    by code_simp
qed

theorem parser_serial_required_witness:
  "parseCsv (''SERIAL,EQUIPAMENTO'' @ [CHR 0x0A] @ ''x1,PC'') baseMappings
     = Inr [[(''serial'', ''x1''), (''equipamento'', ''PC'')]]
   \<and> (\<exists>serial. map_of [(''serial'', ''x1''), (''equipamento'', ''PC'')] ''serial'' = Some serial
         \<and> trim serial \<noteq> [])"
proof -
  have h: "parseCsv (''SERIAL,EQUIPAMENTO'' @ [CHR 0x0A] @ ''x1,PC'') baseMappings
     = Inr [[(''serial'', ''x1''), (''equipamento'', ''PC'')]]"
    by code_simp
  from parser_serial_required [THEN conjunct1, rule_format, OF h,
      of "[(''serial'', ''x1''), (''equipamento'', ''PC'')]"]
  show ?thesis using h by simp
qed

section \<open>Properties of the consolidator\<close>

lemma upperUnit_idem: "concat (map upperUnit (upperUnit c)) = upperUnit c"
  by (auto simp: upperUnit_def Let_def)

lemma toUpperCase_append: "toUpperCase (a @ b) = toUpperCase a @ toUpperCase b"
  by (simp add: toUpperCase_def)

lemma toUpperCase_idem: "toUpperCase (toUpperCase s) = toUpperCase s"
proof (induction s)
  case Nil
  then show ?case by (simp add: toUpperCase_def)
next
  case (Cons c s)
  have "toUpperCase (c # s) = upperUnit c @ toUpperCase s"
    by (simp add: toUpperCase_def)
  moreover have "toUpperCase (upperUnit c) = upperUnit c"
    using upperUnit_idem [of c] by (simp add: toUpperCase_def)
  ultimately show ?case using Cons by (simp add: toUpperCase_append)
qed

lemma upperUnit_space:
  "filter (\<lambda>c. c \<noteq> CHR '' '') (upperUnit c) = (if c = CHR '' '' then [] else upperUnit c)"
  by (auto simp: upperUnit_def Let_def char_of_eq_iff take_bit_eq_mod)

lemma mergeKey_stable:
  "mergeKey (toUpperCase s) = mergeKey s
   \<and> mergeKey (filter (\<lambda>c. c \<noteq> CHR '' '') s) = mergeKey s"
proof
  show "mergeKey (toUpperCase s) = mergeKey s"
    by (simp add: mergeKey_def toUpperCase_idem)
  show "mergeKey (filter (\<lambda>c. c \<noteq> CHR '' '') s) = mergeKey s"
    by (induction s) (simp_all add: mergeKey_def toUpperCase_def upperUnit_space)
qed

lemma map_of_spread:
  "map_of (spread a b) k = (case map_of (rev b) k of Some v \<Rightarrow> Some v | None \<Rightarrow> map_of a k)"
proof (induction b arbitrary: a rule: rev_induct)
  case Nil
  then show ?case by (simp add: spread_def)
next
  case (snoc x xs)
  have "spread a (xs @ [x]) = AList.update (fst x) (snd x) (spread a xs)"
    by (simp add: spread_def)
  then show ?case using snoc [of a]
    by (cases x) (auto simp: update_conv' split: option.splits)
qed

lemma map_of_rev_distinct:
  "distinct (map fst xs) \<Longrightarrow> map_of (rev xs) = map_of xs"
proof (induction xs)
  case Nil
  then show ?case by simp
next
  case (Cons x xs)
  then have "fst x \<notin> dom (map_of xs)" by (simp add: dom_map_of_conv_image_fst)
  then have "map_of xs (fst x) = None" by blast
  with Cons show ?case
    by (cases x) (auto simp: fun_eq_iff map_add_def split: option.splits)
qed

lemma map_of_spread_distinct:
  "distinct (map fst b) \<Longrightarrow>
   map_of (spread a b) k = (case map_of b k of Some v \<Rightarrow> Some v | None \<Rightarrow> map_of a k)"
  by (simp add: map_of_spread map_of_rev_distinct)

lemma setBase_fold:
  "forEachE setBase B m0 = Inr m \<Longrightarrow>
   (distinct (map fst m0) \<longrightarrow> distinct (map fst m))
   \<and> fst ` set m = fst ` set m0 \<union> keyOf ` set B
   \<and> (\<forall>k. map_of m k = (case filter (\<lambda>b. keyOf b = k) B of
                            [] \<Rightarrow> map_of m0 k | b # bs \<Rightarrow> Some (last (b # bs))))"
proof (induction B arbitrary: m0)
  case Nil
  then show ?case by simp
next
  case (Cons b B)
  from Cons.prems obtain m1 where a: "setBase m0 b = Inr m1"
    and rest: "forEachE setBase B m1 = Inr m"
    by (auto split: sum.splits)
  from a have m1: "m1 = AList.update (keyOf b) b m0"
    by (auto simp: setBase_def keyOf_def split: option.splits)
  note ih = Cons.IH [OF rest]
  have d: "distinct (map fst m0) \<longrightarrow> distinct (map fst m)"
    using ih m1 by (simp add: distinct_update)
  have k: "fst ` set m = fst ` set m0 \<union> keyOf ` set (b # B)"
    using ih m1 by (auto simp: dom_update [unfolded dom_map_of_conv_image_fst] )
  have l: "\<forall>k. map_of m k = (case filter (\<lambda>b. keyOf b = k) (b # B) of
                            [] \<Rightarrow> map_of m0 k | b # bs \<Rightarrow> Some (last (b # bs)))"
    using ih m1 by (auto simp: update_conv' split: list.splits)
  from d k l show ?case by blast
qed

lemma overlay_fold:
  "forEachE overlayAbsolute A m0 = Inr m \<Longrightarrow>
   (\<forall>a \<in> set A. map_of a ''serial'' \<noteq> None)
   \<and> (distinct (map fst m0) \<longrightarrow> distinct (map fst m))
   \<and> fst ` set m = fst ` set m0 \<union> keyOf ` set A
   \<and> (\<forall>k. map_of m k = (case filter (\<lambda>a. keyOf a = k) A of
                            [] \<Rightarrow> map_of m0 k
                          | a # as \<Rightarrow> Some (foldl spread
                               (case map_of m0 k of Some e \<Rightarrow> e | None \<Rightarrow> []) (a # as))))"
proof (induction A arbitrary: m0)
  case Nil
  then show ?case by simp
next
  case (Cons a A)
  from Cons.prems obtain m1 where s: "overlayAbsolute m0 a = Inr m1"
    and rest: "forEachE overlayAbsolute A m1 = Inr m"
    by (auto split: sum.splits)
  from s have ser: "map_of a ''serial'' \<noteq> None"
    and m1: "m1 = AList.update (keyOf a)
                (spread (case map_of m0 (keyOf a) of Some e \<Rightarrow> e | None \<Rightarrow> []) a) m0"
    by (auto simp: overlayAbsolute_def keyOf_def Let_def split: option.splits)
  note ih = Cons.IH [OF rest]
  have p: "\<forall>a \<in> set (a # A). map_of a ''serial'' \<noteq> None"
    using ih ser by simp
  have d: "distinct (map fst m0) \<longrightarrow> distinct (map fst m)"
    using ih m1 by (simp add: distinct_update)
  have k: "fst ` set m = fst ` set m0 \<union> keyOf ` set (a # A)"
    using ih m1 by (auto simp: dom_update [unfolded dom_map_of_conv_image_fst] )
  have l: "\<forall>k. map_of m k = (case filter (\<lambda>a. keyOf a = k) (a # A) of
                            [] \<Rightarrow> map_of m0 k
                          | a # as \<Rightarrow> Some (foldl spread
                               (case map_of m0 k of Some e \<Rightarrow> e | None \<Rightarrow> []) (a # as)))"
    using ih m1 by (auto simp: update_conv' split: list.splits)
  from p d k l show ?case by blast
qed

lemma keyOf_deriveStatus: "keyOf (deriveStatus e) = keyOf e"
  by (simp add: keyOf_def deriveStatus_def map_of_spread split: option.splits)

lemma keyOf_chain:
  "as \<noteq> [] \<Longrightarrow> distinct (map fst (last as)) \<Longrightarrow> map_of (last as) ''serial'' \<noteq> None \<Longrightarrow>
   keyOf (foldl spread e0 as) = keyOf (last as)"
proof (cases as rule: rev_cases)
  case Nil
  assume "as \<noteq> []"
  with Nil show ?thesis by simp
next
  case (snoc xs x)
  assume "distinct (map fst (last as))" "map_of (last as) ''serial'' \<noteq> None"
  with snoc show ?thesis
    by (auto simp: keyOf_def map_of_spread_distinct split: option.splits)
qed

lemma setBase_distinct:
  assumes b: "forEachE setBase B [] = Inr m1"
  shows "distinct (map fst m1)"
proof -
  from setBase_fold [OF b] show ?thesis by simp
qed

lemma setBase_lookup:
  assumes b: "forEachE setBase B [] = Inr m1"
  shows "map_of m1 k = (case filter (\<lambda>b. keyOf b = k) B of
                            [] \<Rightarrow> None | b # bs \<Rightarrow> Some (last (b # bs)))"
proof -
  from setBase_fold [OF b]
  have "\<forall>k. map_of m1 k = (case filter (\<lambda>b. keyOf b = k) B of
                            [] \<Rightarrow> map_of [] k | b # bs \<Rightarrow> Some (last (b # bs)))"
    by (rule conjunct2 [THEN conjunct2])
  then have "map_of m1 k = (case filter (\<lambda>b. keyOf b = k) B of
                            [] \<Rightarrow> map_of [] k | b # bs \<Rightarrow> Some (last (b # bs)))"
    by (rule spec)
  then show ?thesis by (simp cong: list.case_cong)
qed

lemma overlay_lookup:
  assumes a: "forEachE overlayAbsolute A m1 = Inr m2"
  shows "map_of m2 k = (case filter (\<lambda>a. keyOf a = k) A of
                            [] \<Rightarrow> map_of m1 k
                          | a # as \<Rightarrow> Some (foldl spread
                               (case map_of m1 k of Some e \<Rightarrow> e | None \<Rightarrow> []) (a # as)))"
proof -
  from overlay_fold [OF a]
  have "\<forall>k. map_of m2 k = (case filter (\<lambda>a. keyOf a = k) A of
                            [] \<Rightarrow> map_of m1 k
                          | a # as \<Rightarrow> Some (foldl spread
                               (case map_of m1 k of Some e \<Rightarrow> e | None \<Rightarrow> []) (a # as)))"
    by (rule conjunct2 [THEN conjunct2, THEN conjunct2])
  then show ?thesis by (rule spec)
qed

lemma overlay_distinct:
  assumes a: "forEachE overlayAbsolute A m1 = Inr m2" and d: "distinct (map fst m1)"
  shows "distinct (map fst m2)"
proof -
  from overlay_fold [OF a] have "distinct (map fst m1) \<longrightarrow> distinct (map fst m2)"
    by (rule conjunct2 [THEN conjunct1])
  with d show ?thesis by (rule rev_mp)
qed

lemma overlay_serial:
  assumes a: "forEachE overlayAbsolute A m1 = Inr m2" and x: "x \<in> set A"
  shows "map_of x ''serial'' \<noteq> None"
proof -
  from overlay_fold [OF a] have "\<forall>a \<in> set A. map_of a ''serial'' \<noteq> None"
    by (rule conjunct1)
  with x show ?thesis by blast
qed

lemma consolidated_entry:
  assumes b: "forEachE setBase B [] = Inr m1"
    and a: "forEachE overlayAbsolute A m1 = Inr m2"
    and obj: "\<forall>e \<in> set A. distinct (map fst e)"
    and kv: "(k, e) \<in> set m2"
  shows "keyOf e = k \<and>
         e = foldl spread (case filter (\<lambda>b. keyOf b = k) B of [] \<Rightarrow> [] | b # bs \<Rightarrow> last (b # bs))
               (filter (\<lambda>a. keyOf a = k) A)"
proof -
  have d2: "distinct (map fst m2)"
    by (rule overlay_distinct [OF a setBase_distinct [OF b]])
  with kv have look: "map_of m2 k = Some e" by simp
  note m1k = setBase_lookup [OF b, of k]
  note m2k = overlay_lookup [OF a, of k]
  show ?thesis
  proof (cases "filter (\<lambda>a. keyOf a = k) A")
    case Nil
    from m2k look have e1: "map_of m1 k = Some e" unfolding Nil by simp
    from m1k e1 obtain b bs where bs: "filter (\<lambda>b. keyOf b = k) B = b # bs" and e: "e = last (b # bs)"
      by (cases "filter (\<lambda>b. keyOf b = k) B") simp_all
    have "last (b # bs) \<in> set (filter (\<lambda>b. keyOf b = k) B)"
      unfolding bs by (rule last_in_set) simp
    then have "keyOf (last (b # bs)) = k" by simp
    then show ?thesis unfolding Nil bs e by simp
  next
    case (Cons x xs)
    from m2k look have e: "e = foldl spread (case map_of m1 k of Some e \<Rightarrow> e | None \<Rightarrow> []) (x # xs)"
      unfolding Cons by simp
    have lin: "last (x # xs) \<in> set (filter (\<lambda>a. keyOf a = k) A)"
      unfolding Cons by (rule last_in_set) simp
    then have lk: "keyOf (last (x # xs)) = k" and lA: "last (x # xs) \<in> set A" by simp_all
    from lA obj have ld: "distinct (map fst (last (x # xs)))" by blast
    have ls: "map_of (last (x # xs)) ''serial'' \<noteq> None"
      by (rule overlay_serial [OF a lA])
    have "keyOf e = keyOf (last (x # xs))"
      unfolding e by (rule keyOf_chain [OF _ ld ls]) simp
    with lk have ke: "keyOf e = k" by simp
    have base: "(case map_of m1 k of Some e \<Rightarrow> e | None \<Rightarrow> []) =
        (case filter (\<lambda>b. keyOf b = k) B of [] \<Rightarrow> [] | b # bs \<Rightarrow> last (b # bs))"
      unfolding m1k by (cases "filter (\<lambda>b. keyOf b = k) B") simp_all
    from ke e show ?thesis unfolding Cons base by simp
  qed
qed

lemma setBase_keys:
  assumes b: "forEachE setBase B [] = Inr m1"
  shows "fst ` set m1 = keyOf ` set B"
proof -
  from setBase_fold [OF b]
  have "fst ` set m1 = fst ` set ([] :: (string \<times> entry) list) \<union> keyOf ` set B"
    by (rule conjunct2 [THEN conjunct1])
  then show ?thesis by simp
qed

lemma overlay_keys:
  assumes a: "forEachE overlayAbsolute A m1 = Inr m2"
  shows "fst ` set m2 = fst ` set m1 \<union> keyOf ` set A"
  using overlay_fold [OF a] by (rule conjunct2 [THEN conjunct2, THEN conjunct1])

text \<open>
  Claim C6. When both files are given, the base records enter the map first and the
  absolute records are laid over them: the final data hold one record for each merge
  key of the two inputs, and that record is the last base record of the key (none: the
  empty object) with the absolute records of the key spread over it in their order,
  then passed through the status derivation. Spreading is a merge field by field: a
  field of the absolute record replaces the value, a field it lacks keeps the base
  value. The base record \<open>{serial: "X", brand: "Dell"}\<close> and the absolute record
  \<open>{serial: "X", brand: "HP", usuarioAtual: "Alice"}\<close> give the single record
  \<open>{serial: "X", brand: "HP", usuarioAtual: "Alice", status: "Em Uso"}\<close>.
\<close>

theorem consolidation_precedence:
  "(consolidateData True True baseData absoluteData = Inr finalData
      \<and> (\<forall>e \<in> set absoluteData. distinct (map fst e)) \<longrightarrow>
        distinct (map keyOf finalData)
      \<and> keyOf ` set finalData = keyOf ` (set baseData \<union> set absoluteData)
      \<and> (\<forall>r \<in> set finalData.
            r = deriveStatus
                  (foldl spread
                     (case filter (\<lambda>b. keyOf b = keyOf r) baseData of
                        [] \<Rightarrow> [] | b # bs \<Rightarrow> last (b # bs))
                     (filter (\<lambda>a. keyOf a = keyOf r) absoluteData))))
   \<and> (distinct (map fst a) \<longrightarrow>
        map_of (spread b a) f = (case map_of a f of Some v \<Rightarrow> Some v | None \<Rightarrow> map_of b f))
   \<and> consolidateData True True
        [[(''serial'', ''X''), (''brand'', ''Dell'')]]
        [[(''serial'', ''X''), (''brand'', ''HP''), (''usuarioAtual'', ''Alice'')]]
      = Inr [[(''serial'', ''X''), (''brand'', ''HP''), (''usuarioAtual'', ''Alice''),
              (''status'', ''Em Uso'')]]"
proof (intro conjI impI)
  assume h: "consolidateData True True baseData absoluteData = Inr finalData
      \<and> (\<forall>e \<in> set absoluteData. distinct (map fst e))"
  then obtain m1 m2 where b: "forEachE setBase baseData [] = Inr m1"
    and a: "forEachE overlayAbsolute absoluteData m1 = Inr m2"
    and fin: "finalData = map (\<lambda>kv. deriveStatus (snd kv)) m2"
    by (auto simp: consolidateData_def split: sum.splits)
  from h have obj: "\<forall>e \<in> set absoluteData. distinct (map fst e)" by simp
  have entry_of: "\<And>kv. kv \<in> set m2 \<Longrightarrow> (fst kv, snd kv) \<in> set m2"
    by simp
  have entk: "\<And>kv. kv \<in> set m2 \<Longrightarrow> keyOf (snd kv) = fst kv"
    by (rule conjunct1 [OF consolidated_entry [OF b a obj entry_of]])
  have entv: "\<And>kv. kv \<in> set m2 \<Longrightarrow>
         snd kv = foldl spread (case filter (\<lambda>b. keyOf b = fst kv) baseData of
                                  [] \<Rightarrow> [] | b # bs \<Rightarrow> last (b # bs))
               (filter (\<lambda>a. keyOf a = fst kv) absoluteData)"
    by (rule conjunct2 [OF consolidated_entry [OF b a obj entry_of]])
  have keys: "map keyOf finalData = map fst m2"
    unfolding fin by (simp add: keyOf_deriveStatus entk)
  have d2: "distinct (map fst m2)"
    by (rule overlay_distinct [OF a setBase_distinct [OF b]])
  have dom: "fst ` set m2 = keyOf ` set baseData \<union> keyOf ` set absoluteData"
    unfolding overlay_keys [OF a] setBase_keys [OF b] ..
  from keys d2 show "distinct (map keyOf finalData)" by simp
  have "keyOf ` set finalData = set (map keyOf finalData)" by simp
  also have "\<dots> = fst ` set m2" unfolding keys by simp
  finally show "keyOf ` set finalData = keyOf ` (set baseData \<union> set absoluteData)"
    using dom by (simp add: image_Un)
  show "\<forall>r \<in> set finalData.
            r = deriveStatus
                  (foldl spread
                     (case filter (\<lambda>b. keyOf b = keyOf r) baseData of
                        [] \<Rightarrow> [] | b # bs \<Rightarrow> last (b # bs))
                     (filter (\<lambda>a. keyOf a = keyOf r) absoluteData))"
  proof
    fix r
    assume "r \<in> set finalData"
    then obtain kv where kv: "kv \<in> set m2" and r: "r = deriveStatus (snd kv)"
      unfolding fin by auto
    from entk [OF kv] have kr: "keyOf r = fst kv"
      unfolding r by (simp add: keyOf_deriveStatus)
    have "deriveStatus (snd kv) = deriveStatus
                  (foldl spread
                     (case filter (\<lambda>b. keyOf b = fst kv) baseData of
                        [] \<Rightarrow> [] | b # bs \<Rightarrow> last (b # bs))
                     (filter (\<lambda>a. keyOf a = fst kv) absoluteData))"
      by (rule arg_cong [OF entv [OF kv]])
    then show "r = deriveStatus
                  (foldl spread
                     (case filter (\<lambda>b. keyOf b = keyOf r) baseData of
                        [] \<Rightarrow> [] | b # bs \<Rightarrow> last (b # bs))
                     (filter (\<lambda>a. keyOf a = keyOf r) absoluteData))"
      unfolding kr unfolding r .
  qed
next
  assume "distinct (map fst a)"
  then show "map_of (spread b a) f = (case map_of a f of Some v \<Rightarrow> Some v | None \<Rightarrow> map_of b f)"
    by (rule map_of_spread_distinct)
next
  show "consolidateData True True
        [[(''serial'', ''X''), (''brand'', ''Dell'')]]
        [[(''serial'', ''X''), (''brand'', ''HP''), (''usuarioAtual'', ''Alice'')]]
      = Inr [[(''serial'', ''X''), (''brand'', ''HP''), (''usuarioAtual'', ''Alice''),
              (''status'', ''Em Uso'')]]"
    by code_simp
qed

text \<open>
  Claim C6, an instance: two records whose serials differ in case only are merged
  into one, and a base field that the absolute record lacks is kept.
\<close>

theorem consolidation_precedence_witness:
  "consolidateData True True
        [[(''serial'', ''X''), (''brand'', ''Dell'')]]
        [[(''serial'', ''x''), (''brand'', ''HP''), (''usuarioAtual'', ''Alice'')]]
      = Inr [[(''serial'', ''x''), (''brand'', ''HP''), (''usuarioAtual'', ''Alice''),
              (''status'', ''Em Uso'')]]
   \<and> distinct (map fst [(''serial'', ''x''), (''brand'', ''HP''), (''usuarioAtual'', ''Alice'')])
   \<and> distinct (map keyOf [[(''serial'', ''x''), (''brand'', ''HP''), (''usuarioAtual'', ''Alice''),
              (''status'', ''Em Uso'')]])
   \<and> distinct (map fst [(''serial'', ''x''), (''brand'', ''HP'')])
   \<and> map_of (spread [(''serial'', ''X''), (''brand'', ''Dell''), (''local'', ''SP'')]
                     [(''serial'', ''x''), (''brand'', ''HP'')]) ''local'' = Some ''SP''"
proof -
  have h1: "consolidateData True True
        [[(''serial'', ''X''), (''brand'', ''Dell'')]]
        [[(''serial'', ''x''), (''brand'', ''HP''), (''usuarioAtual'', ''Alice'')]]
      = Inr [[(''serial'', ''x''), (''brand'', ''HP''), (''usuarioAtual'', ''Alice''),
              (''status'', ''Em Uso'')]]"
    by code_simp
  have h2: "\<forall>e \<in> set [[(''serial'', ''x''), (''brand'', ''HP''), (''usuarioAtual'', ''Alice'')]].
         distinct (map fst e)"
    by simp
  have h3: "distinct (map fst [(''serial'', ''x''), (''brand'', ''HP'')])" by simp
  from consolidation_precedence [THEN conjunct1, rule_format, OF conjI [OF h1 h2]]
  have c1: "distinct (map keyOf [[(''serial'', ''x''), (''brand'', ''HP''), (''usuarioAtual'', ''Alice''),
              (''status'', ''Em Uso'')]])"
    by (rule conjunct1)
  from consolidation_precedence [THEN conjunct2, THEN conjunct1, rule_format, OF h3,
      of "[(''serial'', ''X''), (''brand'', ''Dell''), (''local'', ''SP'')]" "''local''"]
  have c2: "map_of (spread [(''serial'', ''X''), (''brand'', ''Dell''), (''local'', ''SP'')]
                     [(''serial'', ''x''), (''brand'', ''HP'')]) ''local'' = Some ''SP''"
    by simp
  have h2': "distinct (map fst [(''serial'', ''x''), (''brand'', ''HP''), (''usuarioAtual'', ''Alice'')])"
    by simp
  from h1 h2' h3 c1 c2 show ?thesis by blast
qed

section \<open>Properties of the initial import\<close>

lemma importLoop_result:
  "importLoop accepts es db = Inr db' \<Longrightarrow>
   equipment db' = equipment db @
     map (\<lambda>ie. (''id'', JNum (int (fst ie))) # importRow (snd ie)) (enumerate (autoIncrement db) es)
   \<and> equipment_history db' = equipment_history db
   \<and> autoIncrement db' = autoIncrement db + length es
   \<and> app_config db' = app_config db"
proof (induction es arbitrary: db)
  case Nil
  then show ?case by simp
next
  case (Cons e es)
  from Cons.prems have acc: "accepts (equipment db) (InsertEquipment (importRow e))"
    and rest: "importLoop accepts es (execInsert (importRow e) db) = Inr db'"
    by (auto split: if_splits)
  from Cons.IH [OF rest] show ?case
    by (simp add: execInsert_def)
qed

lemma importRow_fixed:
  "column ((''id'', v) # importRow e) ''approval_status'' = JStr ''approved''"
  "column ((''id'', v) # importRow e) ''created_by_id'' = JNum 1"
  by (simp_all add: column_def importRow_def)

lemma importRow_data:
  "c \<in> {''equipamento'', ''patrimonio'', ''serial'', ''brand'', ''model'', ''tipo'', ''status'',
         ''usuarioAtual'', ''emailColaborador'', ''local'', ''setor'', ''identificador'',
         ''nomeSO'', ''memoriaFisicaTotal'', ''grupoPoliticas'', ''pais'', ''cidade'',
         ''estadoProvincia''} \<Longrightarrow>
   column ((''id'', v) # importRow e) c =
     (if getProp e c = JUndefined then JNull else getProp e c)"
  by (elim insertE emptyE) (simp_all add: column_def importRow_def split: jsval.splits)

lemma importRow_date:
  "column ((''id'', v) # importRow e) ''dataEntregaUsuario'' =
     (if falsy (getProp e ''dataEntregaUsuario'') then JNull else getProp e ''dataEntregaUsuario'')"
  by (simp add: column_def importRow_def falsy_def split: jsval.splits)

lemma importRow_dropped:
  "c \<in> {''garantia'', ''usuarioAnterior'', ''dataDevolucao'', ''notaCompra'', ''notaPlKm'',
         ''termoResponsabilidade'', ''foto'', ''qrCode''} \<Longrightarrow>
   column ((''id'', v) # importRow e) c = JNull"
  by (elim insertE emptyE) (simp_all add: column_def importRow_def)

lemma importRow_id: "column ((''id'', JNum n) # importRow e) ''id'' = JNum n"
  by (simp add: column_def)

text \<open>
  Claim C10, as the code has it. After a successful import of the list \<open>L\<close> the table
  \<open>equipment\<close> holds exactly one row for each record of \<open>L\<close>, in the order of
  \<open>L\<close>, with the ids 1, 2, ... (the counter was reset), and no row of the table before
  the import is left; \<open>equipment_history\<close> is empty. A row holds the values of its
  record for the columns named in the INSERT statement: the eighteen data columns as
  they are (a missing field as NULL), \<open>dataEntregaUsuario\<close> or NULL when it is
  falsy, \<open>approval_status = 'approved'\<close> and \<open>created_by_id = 1\<close>. The fields of a
  record that the statement does not name (\<open>garantia\<close>, \<open>usuarioAnterior\<close>,
  \<open>dataDevolucao\<close>, \<open>notaCompra\<close>, \<open>notaPlKm\<close>, \<open>termoResponsabilidade\<close>,
  \<open>foto\<close>, \<open>qrCode\<close>) are not stored: their columns are NULL.
\<close>

theorem import_stores_listed_columns:
  "importTransaction accepts now equipmentList db = Inr db' \<Longrightarrow>
     length (equipment db') = length equipmentList
     \<and> equipment_history db' = []
     \<and> autoIncrement db' = 1 + length equipmentList
     \<and> (\<forall>i < length equipmentList.
           column (equipment db' ! i) ''id'' = JNum (int i + 1)
           \<and> (\<forall>c \<in> {''equipamento'', ''patrimonio'', ''serial'', ''brand'', ''model'', ''tipo'',
                      ''status'', ''usuarioAtual'', ''emailColaborador'', ''local'', ''setor'',
                      ''identificador'', ''nomeSO'', ''memoriaFisicaTotal'', ''grupoPoliticas'',
                      ''pais'', ''cidade'', ''estadoProvincia''}.
                 column (equipment db' ! i) c =
                   (if getProp (equipmentList ! i) c = JUndefined then JNull
                    else getProp (equipmentList ! i) c))
           \<and> column (equipment db' ! i) ''dataEntregaUsuario'' =
                 (if falsy (getProp (equipmentList ! i) ''dataEntregaUsuario'') then JNull
                  else getProp (equipmentList ! i) ''dataEntregaUsuario'')
           \<and> column (equipment db' ! i) ''approval_status'' = JStr ''approved''
           \<and> column (equipment db' ! i) ''created_by_id'' = JNum 1
           \<and> (\<forall>c \<in> {''garantia'', ''usuarioAnterior'', ''dataDevolucao'', ''notaCompra'',
                      ''notaPlKm'', ''termoResponsabilidade'', ''foto'', ''qrCode''}.
                 column (equipment db' ! i) c = JNull))"
proof -
  assume t: "importTransaction accepts now equipmentList db = Inr db'"
  then obtain db1 where
    l: "importLoop accepts equipmentList
          (db\<lparr>equipment_history := [], equipment := [], autoIncrement := 1\<rparr>) = Inr db1"
    and d: "db' = db1\<lparr>app_config :=
                 AList.update ''hasInitialConsolidationRun'' ''true''
                   (AList.update ''lastAbsoluteUpdateTimestamp'' now (app_config db1))\<rparr>"
    by (auto simp: importTransaction_def split: sum.splits)
  from importLoop_result [OF l] d
  have eq: "equipment db' =
       map (\<lambda>ie. (''id'', JNum (int (fst ie))) # importRow (snd ie)) (enumerate 1 equipmentList)"
    and h: "equipment_history db' = []" and a: "autoIncrement db' = 1 + length equipmentList"
    by simp_all
  have len: "length (equipment db') = length equipmentList"
    unfolding eq by simp
  have row: "\<And>i. i < length equipmentList \<Longrightarrow>
      equipment db' ! i = (''id'', JNum (int i + 1)) # importRow (equipmentList ! i)"
    unfolding eq by (simp add: nth_enumerate_eq)
  show ?thesis
  proof (intro conjI allI impI ballI)
    show "length (equipment db') = length equipmentList" by (rule len)
    show "equipment_history db' = []" by (rule h)
    show "autoIncrement db' = 1 + length equipmentList" by (rule a)
  next
    fix i assume "i < length equipmentList"
    then show "column (equipment db' ! i) ''id'' = JNum (int i + 1)"
      by (simp only: row importRow_id)
  next
    fix i c assume "i < length equipmentList"
      and "c \<in> {''equipamento'', ''patrimonio'', ''serial'', ''brand'', ''model'', ''tipo'',
                      ''status'', ''usuarioAtual'', ''emailColaborador'', ''local'', ''setor'',
                      ''identificador'', ''nomeSO'', ''memoriaFisicaTotal'', ''grupoPoliticas'',
                      ''pais'', ''cidade'', ''estadoProvincia''}"
    then show "column (equipment db' ! i) c =
                   (if getProp (equipmentList ! i) c = JUndefined then JNull
                    else getProp (equipmentList ! i) c)"
      by (simp only: row importRow_data)
  next
    fix i assume "i < length equipmentList"
    then show "column (equipment db' ! i) ''dataEntregaUsuario'' =
                 (if falsy (getProp (equipmentList ! i) ''dataEntregaUsuario'') then JNull
                  else getProp (equipmentList ! i) ''dataEntregaUsuario'')"
      by (simp only: row importRow_date)
  next
    fix i assume "i < length equipmentList"
    then show "column (equipment db' ! i) ''approval_status'' = JStr ''approved''"
      by (simp only: row importRow_fixed)
  next
    fix i assume "i < length equipmentList"
    then show "column (equipment db' ! i) ''created_by_id'' = JNum 1"
      by (simp only: row importRow_fixed)
  next
    fix i c assume "i < length equipmentList"
      and "c \<in> {''garantia'', ''usuarioAnterior'', ''dataDevolucao'', ''notaCompra'',
                      ''notaPlKm'', ''termoResponsabilidade'', ''foto'', ''qrCode''}"
    then show "column (equipment db' ! i) c = JNull"
      by (simp only: row importRow_dropped)
  qed
qed

text \<open>
  Claim C10, an instance: the import of one record, which carries a \<open>garantia\<close>,
  into a database that holds one row and one history entry.
\<close>

theorem import_stores_listed_columns_witness:
  "importTransaction (\<lambda>rows q. True) ''2024-01-01''
       [[(''equipamento'', JStr ''PC1''), (''serial'', JStr ''X''), (''garantia'', JStr ''2026'')]]
       \<lparr>equipment = [[(''id'', JNum 7), (''equipamento'', JStr ''Old''), (''serial'', JStr ''OLD1'')]],
        equipment_history = [\<lparr>equipment_id = JNum 7, changedBy = ''admin'', changeType = ''CREATE'',
                              from_value = JNull, to_value = JStr ''Old''\<rparr>],
        autoIncrement = 8, app_config = []\<rparr>
     = Inr \<lparr>equipment = [(''id'', JNum 1) # importRow [(''equipamento'', JStr ''PC1''),
                             (''serial'', JStr ''X''), (''garantia'', JStr ''2026'')]],
            equipment_history = [], autoIncrement = 2,
            app_config = [(''lastAbsoluteUpdateTimestamp'', ''2024-01-01''),
                          (''hasInitialConsolidationRun'', ''true'')]\<rparr>
   \<and> column ((''id'', JNum 1) # importRow [(''equipamento'', JStr ''PC1''),
                 (''serial'', JStr ''X''), (''garantia'', JStr ''2026'')]) ''serial'' = JStr ''X''
   \<and> column ((''id'', JNum 1) # importRow [(''equipamento'', JStr ''PC1''),
                 (''serial'', JStr ''X''), (''garantia'', JStr ''2026'')]) ''patrimonio'' = JNull
   \<and> column ((''id'', JNum 1) # importRow [(''equipamento'', JStr ''PC1''),
                 (''serial'', JStr ''X''), (''garantia'', JStr ''2026'')]) ''garantia'' = JNull"
proof -
  let ?L = "[[(''equipamento'', JStr ''PC1''), (''serial'', JStr ''X''), (''garantia'', JStr ''2026'')]]"
  let ?db' = "\<lparr>equipment = [(''id'', JNum 1) # importRow [(''equipamento'', JStr ''PC1''),
                             (''serial'', JStr ''X''), (''garantia'', JStr ''2026'')]],
            equipment_history = [], autoIncrement = 2,
            app_config = [(''lastAbsoluteUpdateTimestamp'', ''2024-01-01''),
                          (''hasInitialConsolidationRun'', ''true'')]\<rparr>"
  have h: "importTransaction (\<lambda>rows q. True) ''2024-01-01'' ?L
       \<lparr>equipment = [[(''id'', JNum 7), (''equipamento'', JStr ''Old''), (''serial'', JStr ''OLD1'')]],
        equipment_history = [\<lparr>equipment_id = JNum 7, changedBy = ''admin'', changeType = ''CREATE'',
                              from_value = JNull, to_value = JStr ''Old''\<rparr>],
        autoIncrement = 8, app_config = []\<rparr> = Inr ?db'"
    by (simp add: importTransaction_def execInsert_def)
  note t = import_stores_listed_columns [OF h, THEN conjunct2, THEN conjunct2, THEN conjunct2,
      rule_format, of 0]
  have i: "(0::nat) < length ?L" by simp
  from t [OF i] have c1: "column (equipment ?db' ! 0) ''serial'' =
      (if getProp (?L ! 0) ''serial'' = JUndefined then JNull else getProp (?L ! 0) ''serial'')"
    by blast
  from t [OF i] have c2: "column (equipment ?db' ! 0) ''patrimonio'' =
      (if getProp (?L ! 0) ''patrimonio'' = JUndefined then JNull else getProp (?L ! 0) ''patrimonio'')"
    by blast
  from t [OF i] have c3: "column (equipment ?db' ! 0) ''garantia'' = JNull"
    by blast
  from h c1 c2 c3 show ?thesis by (simp add: getProp_def)
qed

text \<open>
  Claim C10 as stated fails: the record \<open>{equipamento: "PC1", serial: "X", garantia:
  "2026"}\<close> is imported with success, and the row of the table has no \<open>garantia\<close>:
  the table does not hold the record as it is in \<open>L\<close>.
\<close>

theorem import_drops_fields_counterexample:
  "case importTransaction (\<lambda>rows q. True) ''2024-01-01''
          [[(''equipamento'', JStr ''PC1''), (''serial'', JStr ''X''), (''garantia'', JStr ''2026'')]]
          \<lparr>equipment = [], equipment_history = [], autoIncrement = 1, app_config = []\<rparr> of
     Inl e \<Rightarrow> False
   | Inr db' \<Rightarrow>
       getProp [(''equipamento'', JStr ''PC1''), (''serial'', JStr ''X''), (''garantia'', JStr ''2026'')]
         ''garantia'' = JStr ''2026''
       \<and> map (\<lambda>row. column row ''garantia'') (equipment db') = [JNull]"
  by code_simp

section \<open>Properties of the periodic reconciliation\<close>

lemma compareKey_foldl:
  "foldl (compareKey username item existing) c keys =
   (let changed = filter (\<lambda>key. key \<noteq> ''serial'' \<and> getProp item key \<noteq> getProp existing key) keys in
    \<lparr>updates = foldl (\<lambda>u key. AList.update key (getProp item key) u) (updates c) changed,
     hasChanges = (hasChanges c \<or> changed \<noteq> []),
     historyEntries = historyEntries c @
       map (\<lambda>key. \<lparr>equipment_id = getProp existing ''id'', changedBy = username, changeType = key,
                    from_value = getProp existing key, to_value = getProp item key\<rparr>) changed\<rparr>)"
proof (induction keys arbitrary: c)
  case Nil
  then show ?case by simp
next
  case (Cons key keys)
  show ?case
    by (simp add: Cons.IH Let_def) (simp add: compareKey_def)
qed




text \<open>
  Claim C3, as the code has it. When the derived status differs from the persisted
  one, the status is put into the update set and an update is staged, whatever else
  changed. The history gets one entry for each key of the item (other than
  \<open>serial\<close>) whose value differs, and an entry for the status only when no such key
  differs: the entry is guarded by \<open>if (!hasChanges)\<close>.
\<close>

theorem status_change_staged:
  "JStr newStatus \<noteq> getProp existing ''status'' \<Longrightarrow>
   (let changed = filter (\<lambda>key. key \<noteq> ''serial'' \<and> getProp item key \<noteq> getProp existing key)
                    (map fst item);
        c = compareExisting username item existing newStatus entries
    in getProp (updates c) ''status'' = JStr newStatus
       \<and> hasChanges c
       \<and> historyEntries c =
           entries @
           map (\<lambda>key. \<lparr>equipment_id = getProp existing ''id'', changedBy = username,
                        changeType = key, from_value = getProp existing key,
                        to_value = getProp item key\<rparr>) changed @
           (if changed = []
            then [\<lparr>equipment_id = getProp existing ''id'', changedBy = username,
                   changeType = ''status'', from_value = getProp existing ''status'',
                   to_value = JStr newStatus\<rparr>]
            else []))"
  by (simp add: compareExisting_def checkStatus_def compareKey_foldl Let_def getProp_def update_conv')

text \<open>
  Claim C3, an instance: the persisted record of Bob, in use, and the incoming record
  with an empty user.
\<close>

theorem status_change_staged_witness:
  "JStr ''Estoque'' \<noteq> getProp (selectRow [(''id'', JNum 1), (''serial'', JStr ''ABC''),
       (''usuarioAtual'', JStr ''Bob''), (''status'', JStr ''Em Uso'')]) ''status''
   \<and> (let c = compareExisting ''admin'' [(''serial'', JStr ''ABC''), (''usuarioAtual'', JStr [])]
              (selectRow [(''id'', JNum 1), (''serial'', JStr ''ABC''),
                 (''usuarioAtual'', JStr ''Bob''), (''status'', JStr ''Em Uso'')]) ''Estoque'' []
      in getProp (updates c) ''status'' = JStr ''Estoque'' \<and> hasChanges c
         \<and> map changeType (historyEntries c) = [''usuarioAtual''])"
proof -
  have h: "JStr ''Estoque'' \<noteq> getProp (selectRow [(''id'', JNum 1), (''serial'', JStr ''ABC''),
       (''usuarioAtual'', JStr ''Bob''), (''status'', JStr ''Em Uso'')]) ''status''"
    by (simp add: selectRow_def getProp_def column_def)
  from status_change_staged [OF h, of "[(''serial'', JStr ''ABC''), (''usuarioAtual'', JStr [])]" "''admin''" "[]"]
  show ?thesis using h
    by (simp add: Let_def selectRow_def getProp_def column_def)
qed

text \<open>
  Claim C3 as stated fails: for the persisted row
  \<open>{id: 1, serial: "ABC", usuarioAtual: "Bob", status: "Em Uso"}\<close> and the incoming
  record \<open>{serial: "ABC", usuarioAtual: ""}\<close> the row becomes \<open>Estoque\<close>, but the
  history has the single entry of \<open>usuarioAtual\<close> and none for the status.
\<close>

theorem status_history_counterexample:
  "let db = \<lparr>equipment = [[(''id'', JNum 1), (''serial'', JStr ''ABC''),
                            (''usuarioAtual'', JStr ''Bob''), (''status'', JStr ''Em Uso'')]],
             equipment_history = [], autoIncrement = 2, app_config = []\<rparr>;
       db' = snd (periodicUpdate (\<lambda>rows q. True) ''2024-01-01''
                    [[(''serial'', JStr ''ABC''), (''usuarioAtual'', JStr [])]] ''admin'' db)
   in equipment db' = [[(''id'', JNum 1), (''serial'', JStr ''ABC''),
                        (''usuarioAtual'', JStr []), (''status'', JStr ''Estoque'')]]
      \<and> map changeType (equipment_history db') = [''usuarioAtual'']"
  by code_simp

lemma compareExisting_entries:
  "historyEntries (compareExisting username item existing newStatus entries) =
     entries @
     map (\<lambda>key. \<lparr>equipment_id = getProp existing ''id'', changedBy = username,
                  changeType = key, from_value = getProp existing key,
                  to_value = getProp item key\<rparr>)
       (filter (\<lambda>key. key \<noteq> ''serial'' \<and> getProp item key \<noteq> getProp existing key)
          (map fst item)) @
     (if JStr newStatus \<noteq> getProp existing ''status''
         \<and> filter (\<lambda>key. key \<noteq> ''serial'' \<and> getProp item key \<noteq> getProp existing key)
               (map fst item) = []
      then [\<lparr>equipment_id = getProp existing ''id'', changedBy = username,
             changeType = ''status'', from_value = getProp existing ''status'',
             to_value = JStr newStatus\<rparr>]
      else [])"
  by (simp add: compareExisting_def checkStatus_def compareKey_foldl Let_def)

lemma processItem_matched:
  assumes ser: "getProp item ''serial'' = JStr serial"
    and look: "map_of existingEquipmentMap (toUpperCase serial) = Some existing"
    and st: "newStatusOf item = Inr newStatus"
  shows "processItem username existingEquipmentMap (entries, queries) item
      = Inr (historyEntries (compareExisting username item existing newStatus entries),
             if hasChanges (compareExisting username item existing newStatus entries)
             then queries @ [UpdatePromise (updates (compareExisting username item existing newStatus entries))
                               (getProp existing ''id'')]
             else queries)"
  using ser look st by (simp add: processItem_def Let_def)

lemma changeType_fields:
  "(\<exists>h \<in> set (map (\<lambda>key. \<lparr>equipment_id = a, changedBy = u, changeType = key,
                                 from_value = f key, to_value = g key\<rparr>) ks).
      changeType h = k) \<longleftrightarrow> k \<in> set ks"
  by auto

lemma changeType_status:
  "(\<exists>h \<in> set (if P then [\<lparr>equipment_id = a, changedBy = u, changeType = ''status'',
                              from_value = x, to_value = y\<rparr>] else []).
      changeType h = k) \<longleftrightarrow> (k = ''status'' \<and> P)"
  by auto

lemma selectRow_reads:
  "getProp (selectRow row) ''id'' = column row ''id''"
  "getProp (selectRow row) ''usuarioAtual'' = column row ''usuarioAtual''"
  "getProp (selectRow row) ''status'' = column row ''status''"
  "getProp (selectRow row) ''serial'' = column row ''serial''"
  by (simp_all add: selectRow_def getProp_def)

text \<open>
  Claim C4, as the code has it. For a matched record the reconciler compares the
  values as they are, with \<open>!==\<close> and without conversion to strings, so \<open>null\<close>
  and \<open>""\<close> differ. For \<open>usuarioAtual\<close> (and \<open>id\<close>), which it reads from the
  persisted row, the item adds a history entry of that field if and only if the field is
  a property of the incoming item and its value is not strictly equal to the persisted
  value. It adds a history entry of \<open>status\<close> if and only if the item has a
  \<open>status\<close> property that is not strictly equal to the persisted status, or the
  status derived from \<open>usuarioAtual\<close> differs from the persisted one and the loop over
  the keys of the item found no change.
\<close>

theorem field_change_iff_strict_difference:
  assumes ser: "getProp item ''serial'' = JStr serial"
    and look: "map_of existingEquipmentMap (toUpperCase serial) = Some (selectRow row)"
    and st: "newStatusOf item = Inr newStatus"
  shows "\<exists>new queries'.
           processItem username existingEquipmentMap (entries, queries) item
             = Inr (entries @ new, queries')
           \<and> (\<forall>key \<in> {''id'', ''usuarioAtual''}.
                 (\<exists>h \<in> set new. changeType h = key)
                 \<longleftrightarrow> (key \<in> fst ` set item \<and> getProp item key \<noteq> column row key))
           \<and> ((\<exists>h \<in> set new. changeType h = ''status'')
                 \<longleftrightarrow> (''status'' \<in> fst ` set item \<and> getProp item ''status'' \<noteq> column row ''status'')
                      \<or> (JStr newStatus \<noteq> column row ''status''
                          \<and> (\<forall>key \<in> fst ` set item.
                                key = ''serial'' \<or> getProp item key = getProp (selectRow row) key)))"
proof -
  define existing where "existing = selectRow row"
  define changed where
    "changed = filter (\<lambda>key. key \<noteq> ''serial'' \<and> getProp item key \<noteq> getProp existing key)
                 (map fst item)"
  define fields where
    "fields = map (\<lambda>key. \<lparr>equipment_id = getProp existing ''id'', changedBy = username,
                  changeType = key, from_value = getProp existing key,
                  to_value = getProp item key\<rparr>) changed"
  define status where
    "status = (if JStr newStatus \<noteq> getProp existing ''status'' \<and> changed = []
      then [\<lparr>equipment_id = getProp existing ''id'', changedBy = username,
             changeType = ''status'', from_value = getProp existing ''status'',
             to_value = JStr newStatus\<rparr>]
      else [])"
  define c where "c = compareExisting username item existing newStatus entries"
  have look': "map_of existingEquipmentMap (toUpperCase serial) = Some existing"
    using look by (simp only: existing_def)
  have hist: "historyEntries c = entries @ (fields @ status)"
    unfolding c_def fields_def status_def changed_def
    by (simp only: compareExisting_entries append_assoc)
  have run: "processItem username existingEquipmentMap (entries, queries) item
      = Inr (entries @ (fields @ status),
             if hasChanges c then queries @ [UpdatePromise (updates c) (getProp existing ''id'')]
             else queries)"
    unfolding hist [symmetric] c_def by (rule processItem_matched [OF ser look' st])
  have chg: "\<And>key. key \<in> set changed \<longleftrightarrow>
      (key \<in> fst ` set item \<and> key \<noteq> ''serial'' \<and> getProp item key \<noteq> getProp existing key)"
    unfolding changed_def by auto
  have inf: "\<And>key. (\<exists>h \<in> set fields. changeType h = key) \<longleftrightarrow> key \<in> set changed"
    unfolding fields_def by (rule changeType_fields)
  have ins: "\<And>key. (\<exists>h \<in> set status. changeType h = key) \<longleftrightarrow>
      (key = ''status'' \<and> JStr newStatus \<noteq> getProp existing ''status'' \<and> changed = [])"
    unfolding status_def by (rule changeType_status)
  have both: "\<And>key. (\<exists>h \<in> set (fields @ status). changeType h = key) \<longleftrightarrow>
      key \<in> set changed
      \<or> (key = ''status'' \<and> JStr newStatus \<noteq> getProp existing ''status'' \<and> changed = [])"
    by (simp only: set_append bex_Un inf ins)
  have empty: "changed = [] \<longleftrightarrow>
      (\<forall>key \<in> fst ` set item. key = ''serial'' \<or> getProp item key = getProp existing key)"
    unfolding changed_def by (auto simp: filter_empty_conv)
  have rid: "getProp existing ''id'' = column row ''id''"
    and rus: "getProp existing ''usuarioAtual'' = column row ''usuarioAtual''"
    and rst: "getProp existing ''status'' = column row ''status''"
    unfolding existing_def by (rule selectRow_reads)+
  have p_id: "(\<exists>h \<in> set (fields @ status). changeType h = ''id'')
                 \<longleftrightarrow> (''id'' \<in> fst ` set item \<and> getProp item ''id'' \<noteq> column row ''id'')"
    unfolding both chg rid by simp
  have p_us: "(\<exists>h \<in> set (fields @ status). changeType h = ''usuarioAtual'')
                 \<longleftrightarrow> (''usuarioAtual'' \<in> fst ` set item
                      \<and> getProp item ''usuarioAtual'' \<noteq> column row ''usuarioAtual'')"
    unfolding both chg rus by simp
  have p1: "\<forall>key \<in> {''id'', ''usuarioAtual''}.
                 (\<exists>h \<in> set (fields @ status). changeType h = key)
                 \<longleftrightarrow> (key \<in> fst ` set item \<and> getProp item key \<noteq> column row key)"
    by (simp only: ball_simps p_id p_us simp_thms)
  have p2: "(\<exists>h \<in> set (fields @ status). changeType h = ''status'')
                 \<longleftrightarrow> (''status'' \<in> fst ` set item \<and> getProp item ''status'' \<noteq> column row ''status'')
                      \<or> (JStr newStatus \<noteq> column row ''status''
                          \<and> (\<forall>key \<in> fst ` set item.
                                key = ''serial'' \<or> getProp item key = getProp (selectRow row) key))"
    unfolding both chg empty [symmetric] rst existing_def [symmetric] by simp
  show ?thesis
    by (rule exI [of _ "fields @ status"], rule exI, intro conjI, rule run, rule p1, rule p2)
qed

text \<open>
  Claim C4, an instance: an item without a \<open>status\<close> property whose user is the
  persisted one, against a row in stock; the only entry is the one of the status.
\<close>

theorem field_change_iff_strict_difference_witness:
  "let item = [(''serial'', JStr ''ABC''), (''usuarioAtual'', JStr ''Bob'')];
       row = [(''id'', JNum 1), (''serial'', JStr ''ABC''), (''usuarioAtual'', JStr ''Bob''),
              (''status'', JStr ''Estoque'')];
       existingEquipmentMap = [(''ABC'', selectRow row)]
   in getProp item ''serial'' = JStr ''ABC''
      \<and> map_of existingEquipmentMap (toUpperCase ''ABC'') = Some (selectRow row)
      \<and> newStatusOf item = Inr ''Em Uso''
      \<and> processItem ''admin'' existingEquipmentMap ([], []) item
          = Inr ([\<lparr>equipment_id = JNum 1, changedBy = ''admin'', changeType = ''status'',
                   from_value = JStr ''Estoque'', to_value = JStr ''Em Uso''\<rparr>],
                 [UpdatePromise [(''status'', JStr ''Em Uso'')] (JNum 1)])
      \<and> (\<exists>new queries'.
            processItem ''admin'' existingEquipmentMap ([], []) item = Inr ([] @ new, queries')
            \<and> (\<forall>key \<in> {''id'', ''usuarioAtual''}.
                  (\<exists>h \<in> set new. changeType h = key)
                  \<longleftrightarrow> (key \<in> fst ` set item \<and> getProp item key \<noteq> column row key))
            \<and> ((\<exists>h \<in> set new. changeType h = ''status'')
                  \<longleftrightarrow> (''status'' \<in> fst ` set item
                         \<and> getProp item ''status'' \<noteq> column row ''status'')
                       \<or> (JStr ''Em Uso'' \<noteq> column row ''status''
                           \<and> (\<forall>key \<in> fst ` set item.
                                 key = ''serial''
                                 \<or> getProp item key = getProp (selectRow row) key))))"
proof -
  let ?item = "[(''serial'', JStr ''ABC''), (''usuarioAtual'', JStr ''Bob'')]"
  let ?row = "[(''id'', JNum 1), (''serial'', JStr ''ABC''), (''usuarioAtual'', JStr ''Bob''),
              (''status'', JStr ''Estoque'')]"
  let ?m = "[(''ABC'', selectRow ?row)]"
  have ser: "getProp ?item ''serial'' = JStr ''ABC''" by (simp add: getProp_def)
  have look: "map_of ?m (toUpperCase ''ABC'') = Some (selectRow ?row)" by code_simp
  have st: "newStatusOf ?item = Inr ''Em Uso''" by code_simp
  have run: "processItem ''admin'' ?m ([], []) ?item
          = Inr ([\<lparr>equipment_id = JNum 1, changedBy = ''admin'', changeType = ''status'',
                   from_value = JStr ''Estoque'', to_value = JStr ''Em Uso''\<rparr>],
                 [UpdatePromise [(''status'', JStr ''Em Uso'')] (JNum 1)])"
    by code_simp
  note t = field_change_iff_strict_difference [OF ser look st, of "''admin''" "[]" "[]"]
  show ?thesis
    unfolding Let_def
    by (intro conjI, rule ser, rule look, rule st, rule run, rule t)
qed

text \<open>
  Claim C4 as stated fails: the persisted \<open>usuarioAtual\<close> is NULL, the incoming one
  is the empty string, both the empty string after normalization, and the run records
  a change from \<open>null\<close> to \<open>""\<close>.
\<close>

theorem null_versus_empty_counterexample:
  "let db = \<lparr>equipment = [[(''id'', JNum 1), (''equipamento'', JStr ''PC1''),
                            (''serial'', JStr ''ABC''), (''usuarioAtual'', JNull),
                            (''status'', JStr ''Estoque'')]],
             equipment_history = [], autoIncrement = 2, app_config = []\<rparr>
   in equipment_history (snd (periodicUpdate (\<lambda>rows q. True) ''2024-01-01''
                    [[(''serial'', JStr ''ABC''), (''usuarioAtual'', JStr [])]] ''admin'' db))
      = [\<lparr>equipment_id = JNum 1, changedBy = ''admin'', changeType = ''usuarioAtual'',
           from_value = JNull, to_value = JStr []\<rparr>]"
  by code_simp

lemma runQueries_frame:
  "runQueries accepts username qs db created = Inr (db1, created1) \<Longrightarrow>
   r \<in> set (equipment db) \<Longrightarrow>
   \<forall>upd ident. UpdatePromise upd ident \<in> set qs \<longrightarrow> ident \<noteq> column r ''id'' \<Longrightarrow>
   r \<in> set (equipment db1)"
proof (induction accepts username qs db created rule: runQueries.induct)
  case (1 accepts username db created)
  then show ?case by simp
next
  case (2 accepts username upd ident qs db created)
  from "2.prems"(1) have acc: "accepts (equipment db) (UpdateEquipment upd ident)"
    and rest: "runQueries accepts username qs (db\<lparr>equipment := execUpdate upd ident (equipment db)\<rparr>) created
                 = Inr (db1, created1)"
    by (auto split: if_splits)
  from "2.prems"(3) have "ident \<noteq> column r ''id''" by auto
  with "2.prems"(2) have "r \<in> set (execUpdate upd ident (equipment db))"
    by (force simp: execUpdate_def image_iff)
  with "2.IH" [OF acc rest] "2.prems"(3) show ?case by simp
next
  case (3 accepts username item newItem qs db created)
  from "3.prems"(1) have acc: "accepts (equipment db) (InsertEquipment newItem)"
    and rest: "runQueries accepts username qs (execInsert newItem db)
                 (created @ [\<lparr>equipment_id = JNum (int (autoIncrement db)), changedBy = username,
                  changeType = ''CREATE'', from_value = JNull,
                  to_value = getProp item ''equipamento''\<rparr>]) = Inr (db1, created1)"
    by (auto split: if_splits)
  from "3.prems"(2) have "r \<in> set (equipment (execInsert newItem db))"
    by (simp add: execInsert_def)
  with "3.IH" [OF acc rest] "3.prems"(3) show ?case by simp
qed

lemma runQueries_length:
  "runQueries accepts username qs db created = Inr (db1, created1) \<Longrightarrow>
   length (equipment db) \<le> length (equipment db1)"
proof (induction accepts username qs db created rule: runQueries.induct)
  case (1 accepts username db created)
  then show ?case by simp
next
  case (2 accepts username upd ident qs db created)
  then show ?case by (auto simp: execUpdate_def split: if_splits)
next
  case (3 accepts username item newItem qs db created)
  then show ?case by (fastforce simp: execInsert_def split: if_splits)
qed

lemma addExisting_source:
  "forEachE addExisting es m0 = Inr m \<Longrightarrow> map_of m k = Some e \<Longrightarrow>
   map_of m0 k = Some e \<or> (e \<in> set es \<and> getProp e ''serial'' \<noteq> JUndefined \<and>
      (\<exists>s. getProp e ''serial'' = JStr s \<and> toUpperCase s = k))"
proof (induction es arbitrary: m0)
  case Nil
  then show ?case by simp
next
  case (Cons x xs)
  from Cons.prems(1) obtain m1 where a: "addExisting m0 x = Inr m1"
    and rest: "forEachE addExisting xs m1 = Inr m"
    by (auto split: sum.splits)
  from a obtain s where s: "getProp x ''serial'' = JStr s"
    and m1: "m1 = AList.update (toUpperCase s) x m0"
    by (auto simp: addExisting_def split: jsval.splits)
  from Cons.IH [OF rest Cons.prems(2)] show ?case
  proof
    assume "map_of m1 k = Some e"
    with m1 s show ?thesis by (auto simp: update_conv' split: if_splits)
  next
    assume "e \<in> set xs \<and> getProp e ''serial'' \<noteq> JUndefined \<and>
      (\<exists>s. getProp e ''serial'' = JStr s \<and> toUpperCase s = k)"
    then show ?thesis by auto
  qed
qed

lemma processItem_updates:
  "forEachE (processItem username m) items st = Inr st' \<Longrightarrow>
   UpdatePromise upd ident \<in> set (snd st') \<Longrightarrow>
   UpdatePromise upd ident \<in> set (snd st) \<or>
   (\<exists>item \<in> set items. \<exists>s existing. getProp item ''serial'' = JStr s \<and>
       map_of m (toUpperCase s) = Some existing \<and> ident = getProp existing ''id'')"
proof (induction items arbitrary: st)
  case Nil
  then show ?case by simp
next
  case (Cons x xs)
  from Cons.prems(1) obtain st1 where a: "processItem username m st x = Inr st1"
    and rest: "forEachE (processItem username m) xs st1 = Inr st'"
    by (auto split: sum.splits)
  from Cons.IH [OF rest Cons.prems(2)] show ?case
  proof
    assume u: "UpdatePromise upd ident \<in> set (snd st1)"
    from a u show ?thesis
      by (auto simp: processItem_def Let_def split: jsval.splits sum.splits option.splits if_splits)
  next
    assume "\<exists>item \<in> set xs. \<exists>s existing. getProp item ''serial'' = JStr s \<and>
       map_of m (toUpperCase s) = Some existing \<and> ident = getProp existing ''id''"
    then show ?thesis by auto
  qed
qed

text \<open>
  Claim C7. In a table whose ids are distinct (\<open>id\<close> is the primary key), a persisted
  row to which no incoming item corresponds is in the table after the run exactly as
  it was before, whether the run succeeds or is rolled back; and the table never gets
  shorter: the run deletes nothing.
\<close>

theorem reconciliation_frame:
  assumes ids: "distinct (map (\<lambda>row. column row ''id'') (equipment db))"
    and r: "r \<in> set (equipment db)"
    and nc: "\<forall>item \<in> set equipmentList. \<not> corresponds item r"
  shows "r \<in> set (equipment (snd (periodicUpdate accepts now equipmentList username db)))
         \<and> length (equipment db)
             \<le> length (equipment (snd (periodicUpdate accepts now equipmentList username db)))"
proof (cases "periodicTransaction accepts now equipmentList username db")
  case (Inl e)
  then show ?thesis using r by (simp add: periodicUpdate_def)
next
  case (Inr db')
  then obtain m st db1 created where
    m: "forEachE addExisting (map selectRow (equipment db)) [] = Inr m"
    and st: "forEachE (processItem username m) equipmentList ([], []) = Inr st"
    and run: "runQueries accepts username (snd st) db [] = Inr (db1, created)"
    and eq: "equipment db' = equipment db1"
    by (auto simp: periodicTransaction_def staged_def Let_def
          split: sum.splits if_splits prod.splits)
  have "\<forall>upd ident. UpdatePromise upd ident \<in> set (snd st) \<longrightarrow> ident \<noteq> column r ''id''"
  proof (intro allI impI)
    fix upd ident
    assume "UpdatePromise upd ident \<in> set (snd st)"
    from processItem_updates [OF st this]
    obtain item s existing where i: "item \<in> set equipmentList"
      and s: "getProp item ''serial'' = JStr s"
      and ex: "map_of m (toUpperCase s) = Some existing"
      and ident: "ident = getProp existing ''id''"
      by auto
    from addExisting_source [OF m ex]
    obtain t where el: "existing \<in> set (map selectRow (equipment db))"
      and t: "getProp existing ''serial'' = JStr t" and ts: "toUpperCase t = toUpperCase s"
      by auto
    from el obtain r' where r': "r' \<in> set (equipment db)" and sel: "existing = selectRow r'"
      by auto
    from sel t have ct: "column r' ''serial'' = JStr t"
      by (simp add: selectRow_def getProp_def)
    from sel have cid: "getProp existing ''id'' = column r' ''id''"
      by (simp add: selectRow_def getProp_def)
    show "ident \<noteq> column r ''id''"
    proof
      assume "ident = column r ''id''"
      with ident cid have "column r' ''id'' = column r ''id''" by simp
      with ids r r' have "r' = r"
        by (auto simp: distinct_map dest: inj_onD)
      with ct s ts have "corresponds item r"
        by (simp add: corresponds_def)
      with nc i show False by blast
    qed
  qed
  from runQueries_frame [OF run r this] runQueries_length [OF run] eq Inr
  show ?thesis by (simp add: periodicUpdate_def)
qed

text \<open>
  Claim C7, an instance: two persisted rows, one incoming item that matches the first
  (by a serial in lower case); the second row stays as it is.
\<close>

theorem reconciliation_frame_witness:
  "let db = \<lparr>equipment = [[(''id'', JNum 1), (''equipamento'', JStr ''PC1''),
                            (''serial'', JStr ''ABC''), (''usuarioAtual'', JStr ''Bob''),
                            (''status'', JStr ''Em Uso'')],
                           [(''id'', JNum 2), (''equipamento'', JStr ''PC2''),
                            (''serial'', JStr ''XYZ''), (''usuarioAtual'', JStr ''Eve''),
                            (''status'', JStr ''Em Uso'')]],
             equipment_history = [], autoIncrement = 3, app_config = []\<rparr>;
       r = [(''id'', JNum 2), (''equipamento'', JStr ''PC2''),
            (''serial'', JStr ''XYZ''), (''usuarioAtual'', JStr ''Eve''),
            (''status'', JStr ''Em Uso'')];
       equipmentList = [[(''serial'', JStr ''abc''), (''usuarioAtual'', JStr [])]]
   in distinct (map (\<lambda>row. column row ''id'') (equipment db))
      \<and> r \<in> set (equipment db)
      \<and> \<not> corresponds [(''serial'', JStr ''abc''), (''usuarioAtual'', JStr [])] r
      \<and> r \<in> set (equipment (snd (periodicUpdate (\<lambda>rows q. True) ''2024-01-01''
                                      equipmentList ''admin'' db)))
      \<and> length (equipment db)
           \<le> length (equipment (snd (periodicUpdate (\<lambda>rows q. True) ''2024-01-01''
                                      equipmentList ''admin'' db)))"
proof -
  let ?db = "\<lparr>equipment = [[(''id'', JNum 1), (''equipamento'', JStr ''PC1''),
                            (''serial'', JStr ''ABC''), (''usuarioAtual'', JStr ''Bob''),
                            (''status'', JStr ''Em Uso'')],
                           [(''id'', JNum 2), (''equipamento'', JStr ''PC2''),
                            (''serial'', JStr ''XYZ''), (''usuarioAtual'', JStr ''Eve''),
                            (''status'', JStr ''Em Uso'')]],
             equipment_history = [], autoIncrement = 3, app_config = []\<rparr>"
  let ?r = "[(''id'', JNum 2), (''equipamento'', JStr ''PC2''),
            (''serial'', JStr ''XYZ''), (''usuarioAtual'', JStr ''Eve''),
            (''status'', JStr ''Em Uso'')]"
  let ?l = "[[(''serial'', JStr ''abc''), (''usuarioAtual'', JStr [])]]"
  have h1: "distinct (map (\<lambda>row. column row ''id'') (equipment ?db))"
    by (simp add: column_def)
  have h2: "?r \<in> set (equipment ?db)" by simp
  have h3: "\<forall>item \<in> set ?l. \<not> corresponds item ?r"
    by code_simp
  have h3': "\<not> corresponds [(''serial'', JStr ''abc''), (''usuarioAtual'', JStr [])] ?r"
    using h3 by simp
  from reconciliation_frame [OF h1 h2 h3, of "\<lambda>rows q. True" "''2024-01-01''" "''admin''"]
  show ?thesis using h1 h2 h3' unfolding Let_def by blast
qed































text \<open>
  Claim C2 on a concrete input. The first run inserts the record
  \<open>{equipamento: "PC1", serial: "ABC", usuarioAtual: "Bob"}\<close> into an empty table and
  succeeds. The second run with the same list stages a history entry and an update for
  \<open>equipamento\<close>: the SELECT of the route reads \<open>id\<close>, \<open>serial\<close>,
  \<open>usuarioAtual\<close> and \<open>status\<close> only, so the persisted value that the loop
  compares with is \<open>undefined\<close> for every other key.
\<close>

theorem second_run_stages_changes:
  "let db = \<lparr>equipment = [], equipment_history = [], autoIncrement = 1, app_config = []\<rparr>;
       equipmentList = [[(''equipamento'', JStr ''PC1''), (''serial'', JStr ''ABC''),
                         (''usuarioAtual'', JStr ''Bob'')]];
       first = periodicUpdate (\<lambda>rows q. True) ''2024-01-01'' equipmentList ''admin'' db
   in fst first
      \<and> equipment (snd first) =
          [[(''id'', JNum 1), (''equipamento'', JStr ''PC1''), (''serial'', JStr ''ABC''),
            (''usuarioAtual'', JStr ''Bob''), (''status'', JStr ''Em Uso''),
            (''approval_status'', JStr ''approved''), (''created_by_id'', JNum 1)]]
      \<and> staged equipmentList ''admin'' (snd first) =
          Inr ([\<lparr>equipment_id = JNum 1, changedBy = ''admin'', changeType = ''equipamento'',
                  from_value = JUndefined, to_value = JStr ''PC1''\<rparr>],
               [UpdatePromise [(''equipamento'', JStr ''PC1'')] (JNum 1)])"
  by code_simp

text \<open>
  Claim C5. The merge key of the consolidation is stable under upper-casing and under
  the removal of spaces, so \<open>SN 123\<close> and \<open>sn123\<close> have the same key there. The
  reconciliation looks the serial up by its upper-case form only: for the persisted
  serial \<open>SN 123\<close> and the incoming serial \<open>sn123\<close> it finds no row and stages an
  insert.
\<close>

theorem serial_with_space_not_matched:
  "mergeKey (toUpperCase s) = mergeKey s
   \<and> mergeKey (filter (\<lambda>c. c \<noteq> CHR '' '') s) = mergeKey s
   \<and> mergeKey ''SN 123'' = mergeKey ''sn123''
   \<and> staged [[(''equipamento'', JStr ''PC1''), (''serial'', JStr ''sn123''),
               (''usuarioAtual'', JStr ''Bob'')]] ''admin''
        \<lparr>equipment = [[(''id'', JNum 1), (''equipamento'', JStr ''PC1''),
                        (''serial'', JStr ''SN 123''), (''usuarioAtual'', JStr ''Bob''),
                        (''status'', JStr ''Em Uso'')]],
         equipment_history = [], autoIncrement = 2, app_config = []\<rparr>
      = Inr ([], [InsertPromise
                    [(''equipamento'', JStr ''PC1''), (''serial'', JStr ''sn123''),
                     (''usuarioAtual'', JStr ''Bob'')]
                    [(''equipamento'', JStr ''PC1''), (''serial'', JStr ''sn123''),
                     (''usuarioAtual'', JStr ''Bob''), (''status'', JStr ''Em Uso''),
                     (''approval_status'', JStr ''approved''), (''created_by_id'', JNum 1)]])"
proof (intro conjI)
  show "mergeKey (toUpperCase s) = mergeKey s"
    by (rule mergeKey_stable [THEN conjunct1])
  show "mergeKey (filter (\<lambda>c. c \<noteq> CHR '' '') s) = mergeKey s"
    by (rule mergeKey_stable [THEN conjunct2])
  show "mergeKey ''SN 123'' = mergeKey ''sn123''"
    by code_simp
  show "staged [[(''equipamento'', JStr ''PC1''), (''serial'', JStr ''sn123''),
               (''usuarioAtual'', JStr ''Bob'')]] ''admin''
        \<lparr>equipment = [[(''id'', JNum 1), (''equipamento'', JStr ''PC1''),
                        (''serial'', JStr ''SN 123''), (''usuarioAtual'', JStr ''Bob''),
                        (''status'', JStr ''Em Uso'')]],
         equipment_history = [], autoIncrement = 2, app_config = []\<rparr>
      = Inr ([], [InsertPromise
                    [(''equipamento'', JStr ''PC1''), (''serial'', JStr ''sn123''),
                     (''usuarioAtual'', JStr ''Bob'')]
                    [(''equipamento'', JStr ''PC1''), (''serial'', JStr ''sn123''),
                     (''usuarioAtual'', JStr ''Bob''), (''status'', JStr ''Em Uso''),
                     (''approval_status'', JStr ''approved''), (''created_by_id'', JNum 1)]])"
    by code_simp
qed

end
